theory Spec2Isabelle
  imports Main "HOL-Library.Char_ord" "HOL-Library.List_Lexorder" "HOL-Library.Sublist"
begin

section \<open>The database of the booking application\<close>

text \<open>
  The application keeps five SQLite tables. A table is the list of its rows in the
  order a scan returns them; a row is a record with one field per column. A
  \<open>TEXT\<close> value is a string, taken as the bytes of its UTF-8 encoding (equality,
  concatenation, the substring test and SQLite's byte-wise comparison are the same
  on code points and on their encodings). An \<open>INTEGER\<close> value is an integer; the
  price of a show may be \<open>NULL\<close>, as the schema allows. The schema declares no
  uniqueness constraint on \<open>(show_id, seat_label)\<close>, so the model has none either.
\<close>

record cinema =
  c_id :: int
  c_name :: string
  c_area :: string
  c_address :: string

record movie =
  m_id :: int
  m_title :: string
  m_duration_minutes :: int
  m_language :: string

record show_row =
  s_id :: int
  s_cinema_id :: int
  s_movie_id :: int
  s_show_time :: string
  s_screen :: string
  s_price :: "int option"

record seat =
  seat_id :: int
  seat_show_id :: int
  seat_label :: string
  seat_status :: string

record booking =
  b_id :: int
  b_show_id :: int
  b_customer_name :: string
  b_seats :: string
  b_total_price :: int
  b_created_at :: string

text \<open>
  \<open>bookings_seq\<close> is the entry of \<open>sqlite_sequence\<close> for the table
  \<open>bookings\<close>, which SQLite keeps for an \<open>AUTOINCREMENT\<close> key: the largest row
  id the table has ever held.
\<close>

record db =
  cinemas :: "cinema list"
  movies :: "movie list"
  shows_tbl :: "show_row list"
  seats :: "seat list"
  bookings :: "booking list"
  bookings_seq :: int

subsection \<open>A connection and its transaction\<close>

text \<open>
  \<open>get_db\<close> opens one connection per request. The connection sees the
  committed database \<open>disk\<close> and, while a transaction is open, its own working
  copy \<open>txn\<close>. \<open>commit\<close> makes the working copy the database, \<open>rollback\<close>
  throws it away, and closing the connection at the end of the request discards
  whatever was not committed.
\<close>

record conn =
  disk :: db
  txn :: "db option"

definition get_db :: "db \<Rightarrow> conn" where
  "get_db d = \<lparr>disk = d, txn = None\<rparr>"

definition view :: "conn \<Rightarrow> db" where
  "view c = (case txn c of None \<Rightarrow> disk c | Some w \<Rightarrow> w)"

definition sql_begin :: "conn \<Rightarrow> conn" where
  "sql_begin c = c\<lparr>txn := Some (view c)\<rparr>"

definition sql_write :: "(db \<Rightarrow> db) \<Rightarrow> conn \<Rightarrow> conn" where
  "sql_write f c = c\<lparr>txn := Some (f (view c))\<rparr>"

definition commit :: "conn \<Rightarrow> conn" where
  "commit c = \<lparr>disk = view c, txn = None\<rparr>"

definition rollback :: "conn \<Rightarrow> conn" where
  "rollback c = c\<lparr>txn := None\<rparr>"

definition close_connection :: "conn \<Rightarrow> db" where
  "close_connection c = disk c"

subsection \<open>JSON values and the Python operations on them\<close>

text \<open>
  The value \<open>request.get_json(force=True)\<close> returns. A float is kept as the two
  things the route can observe of it: what \<open>int()\<close> makes of it (\<open>None\<close> when
  \<open>int()\<close> raises, for \<open>nan\<close> and the infinities) and its text \<open>str()\<close>. An
  object is its list of members; Python keeps the last member of a repeated key.
\<close>

datatype json =
    JNull
  | JBool bool
  | JInt int
  | JFloat "int option" string
  | JStr string
  | JList "json list"
  | JObject "(string \<times> json) list"

definition field :: "(string \<times> json) list \<Rightarrow> string \<Rightarrow> json option" where
  "field kvs k = map_of (rev kvs) k"

text \<open>
  \<open>all(k in data for k in required)\<close>: \<open>None\<close> when \<open>k in data\<close> raises
  \<open>TypeError\<close>. On a list \<open>in\<close> compares elements, on a string it looks for a
  substring.
\<close>

definition required :: "string list" where
  "required = [''show_id'', ''customer_name'', ''seats'']"

definition has_required :: "json \<Rightarrow> bool option" where
  "has_required data =
     (case data of
        JObject kvs \<Rightarrow> Some (list_all (\<lambda>k. field kvs k \<noteq> None) required)
      | JList vs \<Rightarrow> Some (list_all (\<lambda>k. JStr k \<in> set vs) required)
      | JStr s \<Rightarrow> Some (list_all (\<lambda>k. sublist k s) required)
      | _ \<Rightarrow> None)"

text \<open>
  \<open>int(v)\<close>: \<open>None\<close> when it raises (\<open>TypeError\<close>, \<open>ValueError\<close> or
  \<open>OverflowError\<close>). The number syntax Python accepts in a string depends on the
  Unicode tables of the Python in use; it is the parameter \<open>int_of_str\<close> of the
  model, and every statement holds for every such function.
\<close>

fun py_int :: "(string \<Rightarrow> int option) \<Rightarrow> json \<Rightarrow> int option" where
  "py_int int_of_str JNull = None"
| "py_int int_of_str (JBool b) = Some (if b then 1 else 0)"
| "py_int int_of_str (JInt n) = Some n"
| "py_int int_of_str (JFloat t s) = t"
| "py_int int_of_str (JStr s) = int_of_str s"
| "py_int int_of_str (JList vs) = None"
| "py_int int_of_str (JObject kvs) = None"

text \<open>
  \<open>str.strip()\<close> removes the white space of Python 3 at both ends: the code
  points 9 to 13, 28 to 32, U+0085, U+00A0, U+1680, U+2000 to U+200A, U+2028,
  U+2029, U+202F, U+205F and U+3000, here in UTF-8.
\<close>

definition whitespace :: "string list" where
  "whitespace =
     map (\<lambda>c. [c])
       [CHR 0x09, CHR 0x0A, CHR 0x0B, CHR 0x0C, CHR 0x0D,
        CHR 0x1C, CHR 0x1D, CHR 0x1E, CHR 0x1F, CHR 0x20] @
     map (\<lambda>c. [CHR 0xC2, c]) [CHR 0x85, CHR 0xA0] @
     map (\<lambda>c. [CHR 0xE1, CHR 0x9A, c]) [CHR 0x80] @
     map (\<lambda>c. [CHR 0xE2, CHR 0x80, c])
       [CHR 0x80, CHR 0x81, CHR 0x82, CHR 0x83, CHR 0x84, CHR 0x85, CHR 0x86, CHR 0x87,
        CHR 0x88, CHR 0x89, CHR 0x8A, CHR 0xA8, CHR 0xA9, CHR 0xAF] @
     map (\<lambda>c. [CHR 0xE2, CHR 0x81, c]) [CHR 0x9F] @
     map (\<lambda>c. [CHR 0xE3, CHR 0x80, c]) [CHR 0x80]"

text \<open>
  Dropping leading tokens of \<open>ws\<close> from \<open>s\<close>, at most \<open>n\<close> of them; every token
  has at least one byte, so \<open>length s\<close> rounds remove them all.
\<close>

fun drop_leading :: "string list \<Rightarrow> nat \<Rightarrow> string \<Rightarrow> string" where
  "drop_leading ws 0 s = s"
| "drop_leading ws (Suc n) s =
     (case find (\<lambda>w. take (length w) s = w) ws of
        None \<Rightarrow> s
      | Some w \<Rightarrow> drop_leading ws n (drop (length w) s))"

definition lstrip :: "string \<Rightarrow> string" where
  "lstrip s = drop_leading whitespace (length s) s"

definition rstrip :: "string \<Rightarrow> string" where
  "rstrip s = rev (drop_leading (map rev whitespace) (length s) (rev s))"

definition strip :: "string \<Rightarrow> string" where
  "strip s = rstrip (lstrip s)"

text \<open>\<open>v.strip()\<close>: \<open>None\<close> is the \<open>AttributeError\<close> of a value that is no string.\<close>

fun py_strip :: "json \<Rightarrow> string option" where
  "py_strip (JStr s) = Some (strip s)"
| "py_strip v = None"

text \<open>\<open>str(n)\<close> of an integer, and the text an f-string gives a scalar.\<close>

function str_of_nat :: "nat \<Rightarrow> string" where
  "str_of_nat n =
     (if n < 10 then [char_of (48 + n)]
      else str_of_nat (n div 10) @ [char_of (48 + n mod 10)])"
  by pat_completeness auto
termination
  by (relation "measure id") auto

definition str_of_int :: "int \<Rightarrow> string" where
  "str_of_int i = (if i < 0 then ''-'' @ str_of_nat (nat (- i)) else str_of_nat (nat i))"

fun py_str :: "json \<Rightarrow> string" where
  "py_str JNull = ''None''"
| "py_str (JBool b) = (if b then ''True'' else ''False'')"
| "py_str (JInt n) = str_of_int n"
| "py_str (JFloat t s) = s"
| "py_str (JStr s) = s"
| "py_str v = []"

fun join_comma :: "string list \<Rightarrow> string" where
  "join_comma [] = []"
| "join_comma [s] = s"
| "join_comma (s # t # ss) = s @ '','' @ join_comma (t # ss)"

subsection \<open>Exceptions and replies\<close>

text \<open>
  A \<open>sqlite3.Error\<close> is either raised by the store, with its message, or the
  binding error for a parameter whose type SQLite cannot hold, with the position of
  the parameter (its text depends on the Python version). Any other exception
  (\<open>TypeError\<close>, \<open>ValueError\<close>, \<open>AttributeError\<close>, \<open>OverflowError\<close>) is
  \<open>Uncaught\<close>: no handler of the application catches it, and Flask replies 500.
\<close>

datatype sqlite_error = Raised string | Unsupported nat

datatype exn = SqliteError sqlite_error | Uncaught

datatype body =
    ErrorBody string
  | DatabaseError sqlite_error
  | ServerError
  | BookingBody int int "json list" int
  | SeatsBody int "(string \<times> string) list"
  | BookingsBody "(booking \<times> string \<times> string) list"

type_synonym response = "nat \<times> body"

text \<open>
  Opening the connection and every statement sent to SQLite may raise
  \<open>sqlite3.Error\<close> (the database is locked, the disk is full, a limit of the
  store is hit, the row ids are used up). The steps of one request are numbered in
  the order they are executed: 0 is \<open>sqlite3.connect\<close>; for \<open>POST /book\<close> 1 is
  \<open>BEGIN\<close>, 2 the price query, 3 the seat query, 4 onwards the updates, then
  the insert and the commit; for the read routes 1 is the query. \<open>flt k = Some msg\<close>
  says that in this execution step \<open>k\<close> raises with message \<open>msg\<close>, once its
  parameters are bound. \<open>rollback\<close> and closing the connection are taken not to
  raise.
\<close>

type_synonym faults = "nat \<rightharpoonup> string"

text \<open>
  Binding a parameter: SQLite integers have 64 bits, and a Python integer outside
  that range raises \<open>OverflowError\<close>; a list or an object cannot be bound.
\<close>

definition in_int64 :: "int \<Rightarrow> bool" where
  "in_int64 i \<longleftrightarrow> - (2 ^ 63) \<le> i \<and> i < 2 ^ 63"

fun bind_params :: "nat \<Rightarrow> json list \<Rightarrow> exn option" where
  "bind_params i [] = None"
| "bind_params i (JInt n # vs) = (if in_int64 n then bind_params (Suc i) vs else Some Uncaught)"
| "bind_params i (JList ws # vs) = Some (SqliteError (Unsupported i))"
| "bind_params i (JObject kvs # vs) = Some (SqliteError (Unsupported i))"
| "bind_params i (v # vs) = bind_params (Suc i) vs"

text \<open>
  Running statement \<open>k\<close> with the parameters \<open>ps\<close>: the exception it raises, if any.
\<close>

definition execute :: "faults \<Rightarrow> nat \<Rightarrow> json list \<Rightarrow> exn option" where
  "execute flt k ps =
     (case bind_params 0 ps of
        Some x \<Rightarrow> Some x
      | None \<Rightarrow> (case flt k of Some e \<Rightarrow> Some (SqliteError (Raised e)) | None \<Rightarrow> None))"

subsection \<open>The SQL statements of the routes\<close>

text \<open>
  \<open>SELECT price FROM shows WHERE id=?\<close> followed by \<open>fetchone\<close>: the price
  column of the first row, \<open>None\<close> without a row.
\<close>

definition select_price :: "db \<Rightarrow> int \<Rightarrow> int option option" where
  "select_price d show_id = map_option s_price (find (\<lambda>r. s_id r = show_id) (shows_tbl d))"

text \<open>
  \<open>SELECT seat_label, status FROM seats WHERE show_id=? AND seat_label IN (...)\<close>.
  A parameter that is a string selects the rows with that label. A parameter that
  is no string is compared by SQLite after a conversion to text; the rows it alone
  selects are left out here, because the route looks a label up in \<open>found\<close> only
  for a requested string, whose rows are all selected by that string itself.
\<close>

definition select_seats :: "db \<Rightarrow> int \<Rightarrow> json list \<Rightarrow> (string \<times> string) list" where
  "select_seats d show_id seats_req =
     map (\<lambda>r. (seat_label r, seat_status r))
       (filter (\<lambda>r. seat_show_id r = show_id \<and> JStr (seat_label r) \<in> set seats_req) (seats d))"

text \<open>
  The dict comprehension \<open>{r['seat_label']: r['status'] for r in rows}\<close>: a later
  row overwrites an earlier one with the same label.
\<close>

definition found_of :: "(string \<times> string) list \<Rightarrow> (string \<rightharpoonup> string)" where
  "found_of rows = foldl (\<lambda>m r. m(fst r \<mapsto> snd r)) Map.empty rows"

text \<open>
  \<open>UPDATE seats SET status='booked' WHERE show_id=? AND seat_label=?\<close>; the
  second loop only runs when every requested value is a string (see
  \<open>check_seats\<close>), and a value that is no string changes no row here.
\<close>

definition update_seat :: "int \<Rightarrow> json \<Rightarrow> db \<Rightarrow> db" where
  "update_seat show_id s d =
     d\<lparr>seats := map (\<lambda>r. if seat_show_id r = show_id \<and> JStr (seat_label r) = s
                          then r\<lparr>seat_status := ''booked''\<rparr> else r) (seats d)\<rparr>"

text \<open>
  The row id SQLite gives a new row of a table whose key is \<open>AUTOINCREMENT\<close>:
  one more than the largest id in the table (1 for an empty table), and at least
  one more than the recorded sequence value.
\<close>

definition next_rowid :: "int list \<Rightarrow> int \<Rightarrow> int" where
  "next_rowid ids seq =
     max (case ids of [] \<Rightarrow> 1 | x # xs \<Rightarrow> fold max xs x + 1) (seq + 1)"

text \<open>
  \<open>INSERT INTO bookings (show_id, customer_name, seats, total_price, created_at)\<close>;
  the result carries \<open>cur.lastrowid\<close>.
\<close>

definition insert_booking ::
  "int \<Rightarrow> string \<Rightarrow> string \<Rightarrow> int \<Rightarrow> string \<Rightarrow> db \<Rightarrow> db" where
  "insert_booking show_id customer seats_csv total_price now d =
     (let new_id = next_rowid (map b_id (bookings d)) (bookings_seq d)
      in d\<lparr>bookings := bookings d @
              [\<lparr>b_id = new_id, b_show_id = show_id, b_customer_name = customer,
                b_seats = seats_csv, b_total_price = total_price, b_created_at = now\<rparr>],
            bookings_seq := new_id\<rparr>)"

definition lastrowid :: "conn \<Rightarrow> int" where
  "lastrowid c = bookings_seq (view c)"

section \<open>\<open>POST /book\<close>\<close>

text \<open>
  The first loop over \<open>seats_req\<close>: \<open>Reply\<close> is its first early return,
  \<open>Raise\<close> the \<open>TypeError\<close> of \<open>s not in found\<close> for a value that cannot be
  hashed, \<open>Pass\<close> the end of the loop. The keys of \<open>found\<close> are strings, so a
  value that is no string is never among them.
\<close>

datatype outcome = Pass | Reply response | Raise

fun check_seats :: "(string \<rightharpoonup> string) \<Rightarrow> json list \<Rightarrow> outcome" where
  "check_seats found [] = Pass"
| "check_seats found (JStr s # ss) =
     (case found s of
        None \<Rightarrow> Reply (400, ErrorBody (''Seat '' @ s @ '' does not exist''))
      | Some st \<Rightarrow>
          if st \<noteq> ''available''
          then Reply (409, ErrorBody (''Seat '' @ s @ '' is already booked''))
          else check_seats found ss)"
| "check_seats found (JList vs # ss) = Raise"
| "check_seats found (JObject kvs # ss) = Raise"
| "check_seats found (v # ss) =
     Reply (400, ErrorBody (''Seat '' @ py_str v @ '' does not exist''))"

text \<open>
  The second loop: one \<open>UPDATE\<close> per requested value, the first numbered \<open>k\<close>.
  \<open>Inl\<close> is a raised exception with the connection as it was then.
\<close>

fun book_loop :: "faults \<Rightarrow> nat \<Rightarrow> int \<Rightarrow> json list \<Rightarrow> conn \<Rightarrow> (exn \<times> conn) + conn" where
  "book_loop flt k show_id [] c = Inr c"
| "book_loop flt k show_id (s # ss) c =
     (case execute flt k [JStr ''booked'', JInt show_id, s] of
        Some x \<Rightarrow> Inl (x, c)
      | None \<Rightarrow> book_loop flt (Suc k) show_id ss (sql_write (update_seat show_id s) c))"

text \<open>\<open>','.join(seats_req)\<close>, which raises \<open>TypeError\<close> unless every value is a string.\<close>

fun strings_of :: "json list \<Rightarrow> string list option" where
  "strings_of [] = Some []"
| "strings_of (JStr s # vs) = map_option ((#) s) (strings_of vs)"
| "strings_of (v # vs) = None"

text \<open>
  The body of the \<open>try\<close> block. \<open>price * len(seats_req)\<close> raises \<open>TypeError\<close>
  when the price is \<open>NULL\<close>.
\<close>

definition book_try ::
  "faults \<Rightarrow> string \<Rightarrow> int \<Rightarrow> string \<Rightarrow> json list \<Rightarrow> conn \<Rightarrow> (exn \<times> conn) + (response \<times> conn)" where
  "book_try flt now show_id customer seats_req c0 =
     (case execute flt 1 [] of Some x \<Rightarrow> Inl (x, c0) | None \<Rightarrow>
     (let c1 = sql_begin c0 in
     (case execute flt 2 [JInt show_id] of Some x \<Rightarrow> Inl (x, c1) | None \<Rightarrow>
     (case select_price (view c1) show_id of
        None \<Rightarrow> Inr ((404, ErrorBody ''Show not found''), rollback c1)
      | Some price \<Rightarrow>
     (case execute flt 3 (JInt show_id # seats_req) of Some x \<Rightarrow> Inl (x, c1) | None \<Rightarrow>
     (let rows = select_seats (view c1) show_id seats_req;
          found = found_of rows in
     (case check_seats found seats_req of
        Reply resp \<Rightarrow> Inr (resp, rollback c1)
      | Raise \<Rightarrow> Inl (Uncaught, c1)
      | Pass \<Rightarrow>
     (case book_loop flt 4 show_id seats_req c1 of Inl xc \<Rightarrow> Inl xc | Inr c2 \<Rightarrow>
     (case price of None \<Rightarrow> Inl (Uncaught, c2) | Some p \<Rightarrow>
     (let total_price = p * int (length seats_req) in
     (case strings_of seats_req of None \<Rightarrow> Inl (Uncaught, c2) | Some labels \<Rightarrow>
     (let seats_csv = join_comma labels in
     (case execute flt (4 + length seats_req)
             [JInt show_id, JStr customer, JStr seats_csv, JInt total_price, JStr now] of
        Some x \<Rightarrow> Inl (x, c2)
      | None \<Rightarrow>
     (let c3 = sql_write (insert_booking show_id customer seats_csv total_price now) c2;
          booking_id = lastrowid c3 in
     (case execute flt (5 + length seats_req) [] of
        Some x \<Rightarrow> Inl (x, c3)
      | None \<Rightarrow>
     (let c4 = commit c3 in
      Inr ((201, BookingBody booking_id show_id seats_req total_price), c4)))))))))))))))))"

text \<open>
  The route: \<open>int_of_str\<close> is the number syntax of \<open>int()\<close>, \<open>now\<close> is
  \<open>datetime.now().isoformat()\<close>, \<open>data\<close> the parsed body and \<open>d\<close> the
  database before the request; the result is the reply and the database after it.
  The conversions of lines 201 and 202 stand before the test of the seat list, and
  they and \<open>get_db()\<close> stand outside the \<open>try\<close>; an exception the handler does
  not catch leaves the route with the transaction open, and closing the connection
  discards it.
\<close>

definition book_seats ::
  "(string \<Rightarrow> int option) \<Rightarrow> faults \<Rightarrow> string \<Rightarrow> json \<Rightarrow> db \<Rightarrow> response \<times> db" where
  "book_seats int_of_str flt now data d =
     (case has_required data of
        None \<Rightarrow> ((500, ServerError), d)
      | Some False \<Rightarrow>
          ((400, ErrorBody ''Missing fields: show_id, customer_name, seats[]''), d)
      | Some True \<Rightarrow>
     (case data of
        JObject kvs \<Rightarrow>
     (case field kvs ''show_id'' of None \<Rightarrow> ((500, ServerError), d) | Some v1 \<Rightarrow>
     (case py_int int_of_str v1 of None \<Rightarrow> ((500, ServerError), d) | Some show_id \<Rightarrow>
     (case field kvs ''customer_name'' of None \<Rightarrow> ((500, ServerError), d) | Some v2 \<Rightarrow>
     (case py_strip v2 of None \<Rightarrow> ((500, ServerError), d) | Some customer \<Rightarrow>
     (case field kvs ''seats'' of None \<Rightarrow> ((500, ServerError), d) | Some v3 \<Rightarrow>
     (case (case v3 of JList seats_req \<Rightarrow> if seats_req = [] then None else Some seats_req
                     | _ \<Rightarrow> None) of
        None \<Rightarrow>
          ((400, ErrorBody ''Seats must be a non-empty list like [\"A1\",\"A2\"]''), d)
      | Some seats_req \<Rightarrow>
     (case execute flt 0 [] of Some x \<Rightarrow> ((500, ServerError), d) | None \<Rightarrow>
     (case book_try flt now show_id customer seats_req (get_db d) of
        Inr (resp, c) \<Rightarrow> (resp, close_connection c)
      | Inl (SqliteError e, c) \<Rightarrow>
          ((500, DatabaseError e), close_connection (rollback c))
      | Inl (Uncaught, c) \<Rightarrow> ((500, ServerError), close_connection c)))))))))
      | _ \<Rightarrow> ((500, ServerError), d)))"

section \<open>The read routes\<close>

text \<open>
  \<open>GET /shows/<id>/seats\<close>: the rows of the show ordered by label (SQLite compares
  \<open>TEXT\<close> byte by byte, which is the lexicographic order on strings). The route
  has no handler: when the query raises, Flask replies 500. The route only reads;
  its connection is closed after the reply.
\<close>

definition seats_for_show :: "faults \<Rightarrow> int \<Rightarrow> db \<Rightarrow> response \<times> db" where
  "seats_for_show flt show_id d =
     (case execute flt 0 [] of Some x \<Rightarrow> ((500, ServerError), d) | None \<Rightarrow>
      let c = get_db d in
      case execute flt 1 [JInt show_id] of
        Some x \<Rightarrow> ((500, ServerError), close_connection c)
      | None \<Rightarrow>
          (let rows = sort_key fst
                        (map (\<lambda>r. (seat_label r, seat_status r))
                           (filter (\<lambda>r. seat_show_id r = show_id) (seats (view c))))
           in ((200, SeatsBody show_id rows), close_connection c)))"

text \<open>
  \<open>GET /bookings\<close>: the bookings joined with their show, its movie and its cinema,
  \<open>ORDER BY b.created_at DESC\<close>. A reply row is the booking with the movie title
  and the cinema name. Rows with equal \<open>created_at\<close> stay in the order of the
  join. No handler here either.
\<close>

definition bookings_joined :: "db \<Rightarrow> (booking \<times> string \<times> string) list" where
  "bookings_joined d =
     concat (map (\<lambda>b.
       concat (map (\<lambda>s.
         concat (map (\<lambda>m.
           map (\<lambda>c. (b, m_title m, c_name c))
             (filter (\<lambda>c. c_id c = s_cinema_id s) (cinemas d)))
           (filter (\<lambda>m. m_id m = s_movie_id s) (movies d))))
         (filter (\<lambda>s. s_id s = b_show_id b) (shows_tbl d))))
       (bookings d))"

definition order_by_desc :: "('a \<Rightarrow> 'k::linorder) \<Rightarrow> 'a list \<Rightarrow> 'a list" where
  "order_by_desc f xs = rev (sort_key f (rev xs))"

definition list_bookings :: "faults \<Rightarrow> db \<Rightarrow> response \<times> db" where
  "list_bookings flt d =
     (case execute flt 0 [] of Some x \<Rightarrow> ((500, ServerError), d) | None \<Rightarrow>
      let c = get_db d in
      case execute flt 1 [] of
        Some x \<Rightarrow> ((500, ServerError), close_connection c)
      | None \<Rightarrow>
          (let rows = order_by_desc (\<lambda>row. b_created_at (fst row)) (bookings_joined (view c))
           in ((200, BookingsBody rows), close_connection c)))"

subsection \<open>The operations of the core and their runs\<close>

datatype operation =
    Reserve "string \<Rightarrow> int option" faults string json
  | SeatStatuses faults int
  | ListBookings faults

fun perform :: "operation \<Rightarrow> db \<Rightarrow> response \<times> db" where
  "perform (Reserve int_of_str flt now data) d = book_seats int_of_str flt now data d"
| "perform (SeatStatuses flt show_id) d = seats_for_show flt show_id d"
| "perform (ListBookings flt) d = list_bookings flt d"

fun run :: "operation list \<Rightarrow> db \<Rightarrow> db" where
  "run [] d = d"
| "run (op # ops) d = run ops (snd (perform op d))"

section \<open>Notions used in the statements\<close>

text \<open>
  The status the dictionary \<open>found\<close> holds for a label of a show: that of the last
  row with this show and label, \<open>None\<close> when there is no such row.
\<close>

definition label_status :: "db \<Rightarrow> int \<Rightarrow> string \<Rightarrow> string option" where
  "label_status d show_id s =
     (case rev (filter (\<lambda>r. seat_show_id r = show_id \<and> seat_label r = s) (seats d)) of
        [] \<Rightarrow> None
      | r # _ \<Rightarrow> Some (seat_status r))"

text \<open>The show and the seat values a body asks for: \<open>int(data['show_id'])\<close> and \<open>data['seats']\<close>.\<close>

definition requested_show :: "(string \<Rightarrow> int option) \<Rightarrow> json \<Rightarrow> int option" where
  "requested_show int_of_str data =
     (case data of
        JObject kvs \<Rightarrow>
          (case field kvs ''show_id'' of None \<Rightarrow> None | Some v \<Rightarrow> py_int int_of_str v)
      | _ \<Rightarrow> None)"

definition requested_seats :: "json \<Rightarrow> json list" where
  "requested_seats data =
     (case data of
        JObject kvs \<Rightarrow> (case field kvs ''seats'' of Some (JList vs) \<Rightarrow> vs | _ \<Rightarrow> [])
      | _ \<Rightarrow> [])"

text \<open>The database a committed booking leaves: all updates, then the insert.\<close>

definition after_booking :: "int \<Rightarrow> string \<Rightarrow> string list \<Rightarrow> int \<Rightarrow> string \<Rightarrow> db \<Rightarrow> db" where
  "after_booking show_id customer labels price now d =
     insert_booking show_id customer (join_comma labels) (price * int (length labels)) now
       (fold (update_seat show_id) (map JStr labels) d)"

text \<open>
  What may happen to a seat row: nothing, or its status goes from \<open>available\<close>
  to \<open>booked\<close> with the id, the show and the label kept.
\<close>

definition seat_moves :: "seat \<Rightarrow> seat \<Rightarrow> bool" where
  "seat_moves r r' \<longleftrightarrow>
     r' = r \<or> (seat_status r = ''available'' \<and> r' = r\<lparr>seat_status := ''booked''\<rparr>)"

definition valid_statuses :: "db \<Rightarrow> bool" where
  "valid_statuses d = list_all (\<lambda>r. seat_status r = ''available'' \<or> seat_status r = ''booked'') (seats d)"

definition no_faults :: faults where
  "no_faults = Map.empty"

text \<open>
  A small database for concrete runs: one show at price 150 with seats A1 and A2
  available and A3 booked, and no booking yet.
\<close>

definition demo_db :: db where
  "demo_db =
     \<lparr>cinemas = [\<lparr>c_id = 1, c_name = ''PVR Koramangala'', c_area = ''Koramangala'',
                   c_address = ''CMH Road''\<rparr>],
      movies = [\<lparr>m_id = 1, m_title = ''Flight of Fancy'', m_duration_minutes = 140,
                  m_language = ''English''\<rparr>],
      shows_tbl = [\<lparr>s_id = 1, s_cinema_id = 1, s_movie_id = 1,
                     s_show_time = ''2024-01-01T10:00:00'', s_screen = ''Screen 1'',
                     s_price = Some 150\<rparr>],
      seats = [\<lparr>seat_id = 1, seat_show_id = 1, seat_label = ''A1'', seat_status = ''available''\<rparr>,
               \<lparr>seat_id = 2, seat_show_id = 1, seat_label = ''A2'', seat_status = ''available''\<rparr>,
               \<lparr>seat_id = 3, seat_show_id = 1, seat_label = ''A3'', seat_status = ''booked''\<rparr>],
      bookings = [],
      bookings_seq = 0\<rparr>"

text \<open>The same with a second show, at price 170, that has one seat, also labelled A1.\<close>

definition two_show_db :: db where
  "two_show_db =
     demo_db\<lparr>shows_tbl := shows_tbl demo_db @
                   [\<lparr>s_id = 2, s_cinema_id = 1, s_movie_id = 1,
                     s_show_time = ''2024-01-01T13:00:00'', s_screen = ''Screen 2'',
                     s_price = Some 170\<rparr>],
             seats := seats demo_db @
                   [\<lparr>seat_id = 4, seat_show_id = 2, seat_label = ''A1'',
                     seat_status = ''available''\<rparr>]\<rparr>"


definition reserve_request :: "json \<Rightarrow> json \<Rightarrow> json \<Rightarrow> json" where
  "reserve_request show_id name seats_req =
     JObject [(''show_id'', show_id), (''customer_name'', name), (''seats'', seats_req)]"

section \<open>Lemmas on the statements and the loops\<close>

lemma found_of_foldl:
  "foldl (\<lambda>m r. m(fst r \<mapsto> snd r)) m rows = m ++ map_of (rev rows)"
proof (induction rows arbitrary: m)
  case Nil
  show ?case by simp
next
  case (Cons r rows)
  have "foldl (\<lambda>m r. m(fst r \<mapsto> snd r)) m (r # rows) =
        m(fst r \<mapsto> snd r) ++ map_of (rev rows)"
    using Cons.IH [of "m(fst r \<mapsto> snd r)"] by (simp only: foldl_Cons)
  also have "m(fst r \<mapsto> snd r) = m ++ map_of [r]"
    by (cases r) simp
  also have "(m ++ map_of [r]) ++ map_of (rev rows) = m ++ map_of (rev (r # rows))"
    by (simp only: rev.simps map_of_append map_add_assoc)
  finally show ?case .
qed

lemma found_of_map_of: "found_of rows = map_of (rev rows)"
  by (simp add: found_of_def found_of_foldl)

lemma check_seats_strings:
  "check_seats found (map JStr xs) = Pass \<longleftrightarrow> (\<forall>s \<in> set xs. found s = Some ''available'')"
  by (induction xs) (auto split: option.splits)

lemma check_seats_Pass:
  "check_seats found vs = Pass \<Longrightarrow>
   \<exists>xs. vs = map JStr xs \<and> (\<forall>s \<in> set xs. found s = Some ''available'')"
proof (induction found vs rule: check_seats.induct)
  case (1 found)
  then show ?case by simp
next
  case (2 found s ss)
  then obtain xs where "ss = map JStr xs" "\<forall>t \<in> set xs. found t = Some ''available''"
    and "found s = Some ''available''"
    by (auto split: option.splits if_splits)
  then have "JStr s # ss = map JStr (s # xs) \<and> (\<forall>t \<in> set (s # xs). found t = Some ''available'')"
    by simp
  then show ?case by (rule exI [of _ "s # xs"])
qed simp_all

lemma check_seats_Reply_code:
  "check_seats found vs = Reply resp \<Longrightarrow> fst resp = 400 \<or> fst resp = 409"
  by (induction found vs rule: check_seats.induct) (auto split: option.splits if_splits)


lemma execute_no_params: "execute flt k [] = map_option (\<lambda>e. SqliteError (Raised e)) (flt k)"
  by (simp add: execute_def split: option.splits)

lemma execute_show_id:
  "execute flt k [JInt n] =
     (if in_int64 n then map_option (\<lambda>e. SqliteError (Raised e)) (flt k) else Some Uncaught)"
  by (simp add: execute_def split: option.splits)




lemma book_loop_cases:
  "txn c = Some w \<Longrightarrow>
   (case book_loop flt k sid vs c of
      Inl (x, c') \<Rightarrow> disk c' = disk c
    | Inr c' \<Rightarrow> c' = c\<lparr>txn := Some (fold (update_seat sid) vs w)\<rparr>)"
proof (induction vs arbitrary: k c w)
  case Nil
  then show ?case by simp
next
  case (Cons v vs)
  show ?case
  proof (cases "execute flt k [JStr ''booked'', JInt sid, v]")
    case (Some x)
    then show ?thesis by simp
  next
    case None
    let ?c = "sql_write (update_seat sid v) c"
    have c: "txn ?c = Some (update_seat sid v w)" "disk ?c = disk c"
      using Cons.prems by (simp_all add: sql_write_def view_def)
    have "?c\<lparr>txn := Some (fold (update_seat sid) vs (update_seat sid v w))\<rparr> =
          c\<lparr>txn := Some (fold (update_seat sid) (v # vs) w)\<rparr>"
      by (simp add: sql_write_def)
    with Cons.IH [OF c(1), of "Suc k"] c(2) None show ?thesis
      by (auto split: sum.splits)
  qed
qed


lemma fold_update_seat_seats:
  "seats (fold (update_seat sid) (map JStr xs) d) =
     map (\<lambda>r. if seat_show_id r = sid \<and> seat_label r \<in> set xs
               then r\<lparr>seat_status := ''booked''\<rparr> else r) (seats d)"
  by (induction xs arbitrary: d) (auto simp: update_seat_def)

lemma fold_update_seat_frame:
  "cinemas (fold (update_seat sid) vs d) = cinemas d"
  "movies (fold (update_seat sid) vs d) = movies d"
  "shows_tbl (fold (update_seat sid) vs d) = shows_tbl d"
  "bookings (fold (update_seat sid) vs d) = bookings d"
  "bookings_seq (fold (update_seat sid) vs d) = bookings_seq d"
  by (induction vs arbitrary: d) (simp_all add: update_seat_def)

lemma strings_of_strings: "strings_of (map JStr xs) = Some xs"
  by (induction xs) simp_all

subsection \<open>The outcomes of the \<open>try\<close> block and of the route\<close>

lemma book_try_result:
  "(\<exists>x c. book_try flt now sid customer vs (get_db d) = Inl (x, c) \<and> disk c = d) \<or>
   (book_try flt now sid customer vs (get_db d) =
      Inr ((404, ErrorBody ''Show not found''), get_db d) \<and> select_price d sid = None) \<or>
   (\<exists>r. book_try flt now sid customer vs (get_db d) = Inr (r, get_db d) \<and>
        select_price d sid \<noteq> None \<and>
        check_seats (found_of (select_seats d sid vs)) vs = Reply r) \<or>
   (\<exists>p. select_price d sid = Some (Some p) \<and>
        check_seats (found_of (select_seats d sid vs)) vs = Pass \<and>
        book_try flt now sid customer vs (get_db d) =
          Inr ((201, BookingBody (next_rowid (map b_id (bookings d)) (bookings_seq d)) sid vs
                  (p * int (length vs))),
               get_db (insert_booking sid customer (join_comma (the (strings_of vs)))
                         (p * int (length vs)) now (fold (update_seat sid) vs d))))"
  (is "?A \<or> ?B \<or> ?C \<or> ?D")
proof -
  let ?c1 = "sql_begin (get_db d)"
  let ?t = "book_try flt now sid customer vs (get_db d)"
  let ?chk = "check_seats (found_of (select_seats d sid vs)) vs"
  have c1: "txn ?c1 = Some d" "disk ?c1 = d" "view ?c1 = d" "rollback ?c1 = get_db d"
    by (simp_all add: sql_begin_def get_db_def view_def rollback_def)
  have g: "disk (get_db d) = d" by (simp add: get_db_def)
  note loop = book_loop_cases [OF c1(1), where flt = flt and k = 4 and sid = sid and vs = vs]
  show ?thesis
  proof (cases "execute flt (Suc 0) []")
    case (Some x)
    then have "?t = Inl (x, get_db d)" by (simp add: book_try_def)
    then show ?thesis using g by simp
  next
    case e1: None
    show ?thesis
    proof (cases "execute flt 2 [JInt sid]")
      case (Some x)
      then have "?t = Inl (x, ?c1)" by (simp add: book_try_def e1)
      then show ?thesis using c1(2) by simp
    next
      case e2: None
      show ?thesis
      proof (cases "select_price d sid")
        case None
        then have "?t = Inr ((404, ErrorBody ''Show not found''), get_db d)"
          by (simp add: book_try_def e1 e2 c1)
        with None show ?thesis by simp
      next
        case price: (Some price)
        show ?thesis
        proof (cases "execute flt 3 (JInt sid # vs)")
          case (Some x)
          then have "?t = Inl (x, ?c1)" by (simp add: book_try_def e1 e2 c1 price)
          then show ?thesis using c1(2) by simp
        next
          case e3: None
          show ?thesis
          proof (cases ?chk)
            case (Reply r)
            then have "?t = Inr (r, get_db d)"
              by (simp add: book_try_def e1 e2 e3 c1 price)
            with price Reply show ?thesis by simp
          next
            case Raise
            then have "?t = Inl (Uncaught, ?c1)"
              by (simp add: book_try_def e1 e2 e3 c1 price)
            then show ?thesis using c1(2) by simp
          next
            case Pass
            from check_seats_Pass [OF Pass] obtain xs where xs: "vs = map JStr xs" by blast
            have str: "strings_of vs = Some xs" by (simp add: xs strings_of_strings)
            show ?thesis
            proof (cases "book_loop flt 4 sid vs ?c1")
              case (Inl xc)
              obtain x c where xc: "xc = (x, c)" by (cases xc)
              with loop Inl have "disk c = d" by (simp add: c1)
              moreover have "?t = Inl (x, c)"
                using Inl xc by (simp add: book_try_def e1 e2 e3 c1 price Pass)
              ultimately show ?thesis by simp
            next
              case (Inr c2)
              with loop have c2: "c2 = ?c1\<lparr>txn := Some (fold (update_seat sid) vs d)\<rparr>" by simp
              then have c2': "disk c2 = d" "view c2 = fold (update_seat sid) vs d"
                by (simp_all add: c1 view_def)
              show ?thesis
              proof (cases price)
                case None
                then have "?t = Inl (Uncaught, c2)"
                  by (simp add: book_try_def e1 e2 e3 c1 price Pass Inr)
                then show ?thesis using c2'(1) by simp
              next
                case p: (Some p)
                let ?total = "p * int (length vs)"
                let ?ins = "insert_booking sid customer (join_comma xs) ?total now"
                let ?c3 = "sql_write ?ins c2"
                have "?c3 = c2\<lparr>txn := Some (?ins (fold (update_seat sid) vs d))\<rparr>"
                  by (simp add: sql_write_def c2'(2))
                then have c3: "disk ?c3 = d" "view ?c3 = ?ins (fold (update_seat sid) vs d)"
                  by (simp_all add: view_def c2'(1))
                show ?thesis
                proof (cases "execute flt (4 + length vs)
                    [JInt sid, JStr customer, JStr (join_comma xs), JInt ?total, JStr now]")
                  case (Some x)
                  then have "?t = Inl (x, c2)"
                    by (simp add: book_try_def e1 e2 e3 c1 price Pass Inr p str)
                  then show ?thesis using c2'(1) by simp
                next
                  case e4: None
                  show ?thesis
                  proof (cases "execute flt (5 + length vs) []")
                    case (Some x)
                    then have "?t = Inl (x, ?c3)"
                      by (simp add: book_try_def e1 e2 e3 e4 c1 price Pass Inr p str Let_def)
                    then show ?thesis using c3(1) by simp
                  next
                    case e5: None
                    have "lastrowid ?c3 = next_rowid (map b_id (bookings d)) (bookings_seq d)"
                      by (simp add: lastrowid_def c3 insert_booking_def Let_def fold_update_seat_frame)
                    moreover have "commit ?c3 = get_db (?ins (fold (update_seat sid) vs d))"
                      by (simp add: commit_def c3 get_db_def)
                    ultimately have "?t = Inr ((201, BookingBody
                        (next_rowid (map b_id (bookings d)) (bookings_seq d)) sid vs ?total),
                        get_db (?ins (fold (update_seat sid) vs d)))"
                      by (simp add: book_try_def e1 e2 e3 e4 e5 c1 price Pass Inr p str Let_def)
                    then have ?D using price p Pass str by simp
                    then show ?thesis by simp
                  qed
                qed
              qed
            qed
          qed
        qed
      qed
    qed
  qed
qed

lemma py_strip_Some: "py_strip v = Some c \<longleftrightarrow> (\<exists>name. v = JStr name \<and> c = strip name)"
  by (cases v) auto

lemma after_booking_eq:
  "insert_booking sid customer (join_comma (the (strings_of (map JStr xs))))
     (p * int (length (map JStr xs))) now (fold (update_seat sid) (map JStr xs) d) =
   after_booking sid customer xs p now d"
  by (simp add: after_booking_def strings_of_strings)

text \<open>The route past the conversions and the test of the seat list.\<close>

lemma book_seats_unfold:
  assumes "data = JObject kvs"
    and "field kvs ''show_id'' = Some v1" "py_int int_of_str v1 = Some sid"
    and "field kvs ''customer_name'' = Some (JStr name)"
    and "field kvs ''seats'' = Some (JList vs)" "vs \<noteq> []"
  shows "book_seats int_of_str flt now data d =
     (case execute flt 0 [] of Some x \<Rightarrow> ((500, ServerError), d) | None \<Rightarrow>
     (case book_try flt now sid (strip name) vs (get_db d) of
        Inr (resp, c) \<Rightarrow> (resp, close_connection c)
      | Inl (SqliteError e, c) \<Rightarrow>
          ((500, DatabaseError e), close_connection (rollback c))
      | Inl (Uncaught, c) \<Rightarrow> ((500, ServerError), close_connection c)))"
  using assms by (simp add: book_seats_def has_required_def required_def)

lemma book_seats_result:
  assumes "book_seats int_of_str flt now data d = (resp, d')"
  shows "(d' = d \<and> fst resp \<in> {400, 404, 409, 500}) \<or>
         (\<exists>kvs v1 sid name xs p.
            data = JObject kvs \<and> field kvs ''show_id'' = Some v1 \<and>
            py_int int_of_str v1 = Some sid \<and>
            field kvs ''customer_name'' = Some (JStr name) \<and>
            field kvs ''seats'' = Some (JList (map JStr xs)) \<and> xs \<noteq> [] \<and>
            select_price d sid = Some (Some p) \<and>
            check_seats (found_of (select_seats d sid (map JStr xs))) (map JStr xs) = Pass \<and>
            resp = (201, BookingBody (next_rowid (map b_id (bookings d)) (bookings_seq d)) sid
                       (map JStr xs) (p * int (length xs))) \<and>
            d' = after_booking sid (strip name) xs p now d)"
  (is "?same \<or> ?booked")
proof -
  consider (early) "d' = d" "fst resp \<in> {400, 500}"
    | (txn) kvs v1 sid name vs where "data = JObject kvs"
        "field kvs ''show_id'' = Some v1" "py_int int_of_str v1 = Some sid"
        "field kvs ''customer_name'' = Some (JStr name)"
        "field kvs ''seats'' = Some (JList vs)" "vs \<noteq> []"
  proof (cases "has_required data")
    case None
    with assms show ?thesis by (intro early) (auto simp: book_seats_def)
  next
    case (Some b)
    show ?thesis
    proof (cases b)
      case False
      with Some assms show ?thesis by (intro early) (auto simp: book_seats_def)
    next
      case True
      show ?thesis
      proof (cases data)
        case (JObject kvs)
        show ?thesis
        proof (cases "\<exists>v1 sid name vs. field kvs ''show_id'' = Some v1 \<and>
            py_int int_of_str v1 = Some sid \<and> field kvs ''customer_name'' = Some (JStr name) \<and>
            field kvs ''seats'' = Some (JList vs) \<and> vs \<noteq> []")
          case True
          then show ?thesis using JObject by (elim exE conjE) (rule txn)
        next
          case False
          with assms Some \<open>b\<close> JObject show ?thesis
            by (intro early)
              (auto simp: book_seats_def py_strip_Some split: option.splits json.splits if_splits)
        qed
      qed (use assms Some True in \<open>auto simp: book_seats_def intro: early\<close>)
    qed
  qed
  then show ?thesis
  proof cases
    case early
    then show ?thesis by auto
  next
    case txn
    note eq = book_seats_unfold [OF txn, of flt now d]
    let ?t = "book_try flt now sid (strip name) vs (get_db d)"
    show ?thesis
    proof (cases "execute flt 0 []")
      case (Some x)
      with eq assms show ?thesis by auto
    next
      case None
      from book_try_result [of flt now sid "strip name" vs d]
      consider (raised) x c where "?t = Inl (x, c)" "disk c = d"
        | (no_show) "?t = Inr ((404, ErrorBody ''Show not found''), get_db d)"
        | (rejected) r where "?t = Inr (r, get_db d)"
            "check_seats (found_of (select_seats d sid vs)) vs = Reply r"
        | (booked) p where "select_price d sid = Some (Some p)"
            "check_seats (found_of (select_seats d sid vs)) vs = Pass"
            "?t = Inr ((201, BookingBody (next_rowid (map b_id (bookings d)) (bookings_seq d))
                               sid vs (p * int (length vs))),
                       get_db (insert_booking sid (strip name)
                                 (join_comma (the (strings_of vs)))
                                 (p * int (length vs)) now (fold (update_seat sid) vs d)))"
        by blast
      then show ?thesis
      proof cases
        case raised
        with eq None assms show ?thesis
          by (cases x) (auto simp: close_connection_def rollback_def)
      next
        case no_show
        with eq None assms show ?thesis
          by (auto simp: close_connection_def get_db_def)
      next
        case rejected
        from check_seats_Reply_code [OF rejected(2)] have "fst r \<in> {400, 404, 409, 500}"
          by auto
        with eq None rejected(1) assms show ?thesis
          by (auto simp: close_connection_def get_db_def)
      next
        case booked
        from check_seats_Pass [OF booked(2)] obtain xs where xs: "vs = map JStr xs" by blast
        have ne: "xs \<noteq> []" using txn(6) xs by simp
        from eq None booked(3) assms
        have "resp = (201, BookingBody (next_rowid (map b_id (bookings d)) (bookings_seq d))
                               sid vs (p * int (length vs)))"
          and "d' = insert_booking sid (strip name) (join_comma (the (strings_of vs)))
                      (p * int (length vs)) now (fold (update_seat sid) vs d)"
          by (simp_all add: close_connection_def get_db_def)
        then have "resp = (201, BookingBody (next_rowid (map b_id (bookings d)) (bookings_seq d))
                               sid (map JStr xs) (p * int (length xs)))"
          and "d' = after_booking sid (strip name) xs p now d"
          by (simp_all add: xs after_booking_eq [symmetric])
        with txn(1-5) booked(1,2) ne have ?booked
          unfolding xs by blast
        then show ?thesis ..
      qed
    qed
  qed
qed

subsection \<open>Labels, row ids and the committed state\<close>

lemma map_of_rows:
  "map_of (map (\<lambda>r. (seat_label r, seat_status r)) rs) s =
     (case filter (\<lambda>r. seat_label r = s) rs of [] \<Rightarrow> None | r # _ \<Rightarrow> Some (seat_status r))"
  by (induction rs) auto

lemma found_of_label_status:
  assumes "JStr s \<in> set vs"
  shows "found_of (select_seats d sid vs) s = label_status d sid s"
proof -
  have "filter (\<lambda>r. seat_label r = s)
          (rev (filter (\<lambda>r. seat_show_id r = sid \<and> JStr (seat_label r) \<in> set vs) (seats d))) =
        rev (filter (\<lambda>r. seat_show_id r = sid \<and> seat_label r = s) (seats d))"
    using assms by (auto simp: rev_filter [symmetric] intro: filter_cong)
  then show ?thesis
    by (simp add: found_of_map_of select_seats_def label_status_def rev_map map_of_rows)
qed

lemma check_seats_label_status:
  "check_seats (found_of (select_seats d sid (map JStr xs))) (map JStr xs) = Pass \<longleftrightarrow>
     (\<forall>s \<in> set xs. label_status d sid s = Some ''available'')"
  by (simp add: check_seats_strings found_of_label_status)



lemma fold_max_ge: "x \<le> fold max xs (x::int)" "\<forall>y \<in> set xs. y \<le> fold max xs x"
proof -
  have "fold max xs x = Max (set (x # xs))" by (simp only: Max.set_eq_fold)
  then show "x \<le> fold max xs x" "\<forall>y \<in> set xs. y \<le> fold max xs x" by simp_all
qed

lemma next_rowid_fresh:
  "seq < next_rowid ids seq" "\<forall>i \<in> set ids. i < next_rowid ids seq"
proof -
  show "seq < next_rowid ids seq" by (simp add: next_rowid_def)
  show "\<forall>i \<in> set ids. i < next_rowid ids seq"
  proof (cases ids)
    case Nil
    then show ?thesis by simp
  next
    case (Cons x xs)
    with fold_max_ge [where x = x and xs = xs] show ?thesis
      by (auto simp: next_rowid_def)
  qed
qed

lemma after_booking_fields:
  "cinemas (after_booking sid customer xs price now d) = cinemas d"
  "movies (after_booking sid customer xs price now d) = movies d"
  "shows_tbl (after_booking sid customer xs price now d) = shows_tbl d"
  "seats (after_booking sid customer xs price now d) =
     map (\<lambda>r. if seat_show_id r = sid \<and> seat_label r \<in> set xs
               then r\<lparr>seat_status := ''booked''\<rparr> else r) (seats d)"
  "bookings (after_booking sid customer xs price now d) =
     bookings d @
       [\<lparr>b_id = next_rowid (map b_id (bookings d)) (bookings_seq d), b_show_id = sid,
         b_customer_name = customer, b_seats = join_comma xs,
         b_total_price = price * int (length xs), b_created_at = now\<rparr>]"
  "bookings_seq (after_booking sid customer xs price now d) =
     next_rowid (map b_id (bookings d)) (bookings_seq d)"
  by (simp_all add: after_booking_def insert_booking_def Let_def fold_update_seat_seats
      fold_update_seat_frame)



lemma book_try_overflow:
  assumes "flt 1 = None" "\<not> in_int64 sid"
  shows "\<exists>c. book_try flt now sid customer vs (get_db d) = Inl (Uncaught, c)"
  using assms by (simp add: book_try_def execute_no_params execute_show_id)


section \<open>Failure leaves the database as it was\<close>

text \<open>
  Claim C2. Whenever \<open>POST /book\<close> replies with anything but 201 (missing fields,
  a failed conversion, an empty seat list, unknown show, unknown seat, seat
  already booked, an error raised by the store at any step, or an exception no
  handler catches), the database after the request is the database before it: no
  seat row has changed and no booking row was added.
\<close>

theorem failed_reserve_changes_nothing:
  assumes "book_seats int_of_str flt now data d = (resp, d')" and "fst resp \<noteq> 201"
  shows "d' = d \<and> seats d' = seats d \<and> bookings d' = bookings d"
  using book_seats_result [OF assms(1)] assms(2) by auto

theorem failed_reserve_changes_nothing_witness:
  "\<forall>int_of_str.
     fst (book_seats int_of_str no_faults ''2024-01-01T09:00:00''
            (reserve_request (JInt 1) (JStr ''Asha'') (JList [JStr ''A1'', JStr ''A3''])) demo_db)
       = (409, ErrorBody ''Seat A3 is already booked'') \<and>
     snd (book_seats int_of_str no_faults ''2024-01-01T09:00:00''
            (reserve_request (JInt 1) (JStr ''Asha'') (JList [JStr ''A1'', JStr ''A3''])) demo_db)
       = demo_db"
proof
  fix int_of_str
  let ?r = "book_seats int_of_str no_faults ''2024-01-01T09:00:00''
              (reserve_request (JInt 1) (JStr ''Asha'') (JList [JStr ''A1'', JStr ''A3''])) demo_db"
  have r: "fst ?r = (409, ErrorBody ''Seat A3 is already booked'')"
    by code_simp
  have "?r = (fst ?r, snd ?r)" by simp
  from failed_reserve_changes_nothing [OF this] r
  show "fst ?r = (409, ErrorBody ''Seat A3 is already booked'') \<and> snd ?r = demo_db" by simp
qed

lemma filter_booked_rows:
  "s \<in> set xs \<Longrightarrow>
   filter (\<lambda>r. seat_show_id r = sid \<and> seat_label r = s)
     (map (\<lambda>r. if seat_show_id r = sid \<and> seat_label r \<in> set xs
               then r\<lparr>seat_status := ''booked''\<rparr> else r) rs) =
   map (\<lambda>r. r\<lparr>seat_status := ''booked''\<rparr>)
     (filter (\<lambda>r. seat_show_id r = sid \<and> seat_label r = s) rs)"
  by (induction rs) auto


lemma label_status_after_booking:
  assumes "s \<in> set xs" "label_status d sid s \<noteq> None"
  shows "label_status (after_booking sid customer xs price now d) sid s = Some ''booked''"
proof -
  let ?rs = "filter (\<lambda>r. seat_show_id r = sid \<and> seat_label r = s) (seats d)"
  from assms(2) obtain r rs where rs: "rev ?rs = r # rs"
    by (auto simp: label_status_def split: list.splits)
  then show ?thesis
    by (simp add: label_status_def after_booking_fields filter_booked_rows [OF assms(1)] rev_map)
qed



section \<open>A valid request on available seats is booked\<close>




section \<open>The total price\<close>

text \<open>
  Claim C6. Whenever \<open>POST /book\<close> replies 201, the total price in the reply and in
  the one booking row it appended is the price in the row of the requested show
  (the row the price query returns) times the number of requested labels. On the
  show at price 150, reserving A1 and A2 gives 300; on the show at price 170,
  reserving A1 gives 170.
\<close>

theorem total_price_is_price_times_count:
  assumes "book_seats int_of_str flt now data d = (resp, d')" and "fst resp = 201"
  shows "\<exists>sid row price bid b.
           requested_show int_of_str data = Some sid \<and>
           find (\<lambda>r. s_id r = sid) (shows_tbl d) = Some row \<and> s_price row = Some price \<and>
           resp = (201, BookingBody bid sid (requested_seats data)
                          (price * int (length (requested_seats data)))) \<and>
           bookings d' = bookings d @ [b] \<and> b_id b = bid \<and> b_show_id b = sid \<and>
           b_total_price b = price * int (length (requested_seats data))"
proof -
  from book_seats_result [OF assms(1)] assms(2)
  obtain kvs v1 sid name xs p where data: "data = JObject kvs"
      "field kvs ''show_id'' = Some v1" "py_int int_of_str v1 = Some sid"
      "field kvs ''seats'' = Some (JList (map JStr xs))"
    and price: "select_price d sid = Some (Some p)"
    and resp: "resp = (201, BookingBody (next_rowid (map b_id (bookings d)) (bookings_seq d)) sid
                       (map JStr xs) (p * int (length xs)))"
    and d': "d' = after_booking sid (strip name) xs p now d"
    by auto
  from price obtain row where row: "find (\<lambda>r. s_id r = sid) (shows_tbl d) = Some row"
      "s_price row = Some p"
    by (auto simp: select_price_def)
  have rs: "requested_show int_of_str data = Some sid" "requested_seats data = map JStr xs"
    using data by (simp_all add: requested_show_def requested_seats_def)
  show ?thesis
    using row resp rs
    by (simp add: d' after_booking_fields)
qed

theorem total_price_is_price_times_count_witness:
  "\<forall>int_of_str.
   fst (book_seats int_of_str no_faults ''2024-01-01T09:00:00''
       (reserve_request (JInt 1) (JStr ''Asha'') (JList [JStr ''A1'', JStr ''A2''])) two_show_db) =
     (201, BookingBody 1 1 [JStr ''A1'', JStr ''A2''] 300) \<and>
   b_total_price (last (bookings (snd (book_seats int_of_str no_faults ''2024-01-01T09:00:00''
       (reserve_request (JInt 1) (JStr ''Asha'') (JList [JStr ''A1'', JStr ''A2''])) two_show_db))))
     = 300 \<and>
   fst (book_seats int_of_str no_faults ''2024-01-01T09:00:00''
       (reserve_request (JInt 2) (JStr ''Asha'') (JList [JStr ''A1''])) two_show_db) =
     (201, BookingBody 1 2 [JStr ''A1''] 170) \<and>
   b_total_price (last (bookings (snd (book_seats int_of_str no_faults ''2024-01-01T09:00:00''
       (reserve_request (JInt 2) (JStr ''Asha'') (JList [JStr ''A1''])) two_show_db))))
     = 170"
proof
  fix int_of_str
  let ?d1 = "reserve_request (JInt 1) (JStr ''Asha'') (JList [JStr ''A1'', JStr ''A2''])"
  let ?d2 = "reserve_request (JInt 2) (JStr ''Asha'') (JList [JStr ''A1''])"
  let ?r1 = "book_seats int_of_str no_faults ''2024-01-01T09:00:00'' ?d1 two_show_db"
  let ?r2 = "book_seats int_of_str no_faults ''2024-01-01T09:00:00'' ?d2 two_show_db"
  have e1: "fst ?r1 = (201, BookingBody 1 1 [JStr ''A1'', JStr ''A2''] 300)"
    and e2: "fst ?r2 = (201, BookingBody 1 2 [JStr ''A1''] 170)"
    by code_simp+
  have rows: "find (\<lambda>r. s_id r = 1) (shows_tbl two_show_db) =
      Some \<lparr>s_id = 1, s_cinema_id = 1, s_movie_id = 1, s_show_time = ''2024-01-01T10:00:00'',
            s_screen = ''Screen 1'', s_price = Some 150\<rparr>"
    "find (\<lambda>r. s_id r = 2) (shows_tbl two_show_db) =
      Some \<lparr>s_id = 2, s_cinema_id = 1, s_movie_id = 1, s_show_time = ''2024-01-01T13:00:00'',
            s_screen = ''Screen 2'', s_price = Some 170\<rparr>"
    by (simp_all add: two_show_db_def demo_db_def)
  have req: "requested_show int_of_str ?d1 = Some 1"
    "requested_seats ?d1 = [JStr ''A1'', JStr ''A2'']"
    "requested_show int_of_str ?d2 = Some 2" "requested_seats ?d2 = [JStr ''A1'']"
    by (simp_all add: requested_show_def requested_seats_def reserve_request_def field_def)
  have p1: "?r1 = (fst ?r1, snd ?r1)" and p2: "?r2 = (fst ?r2, snd ?r2)" by simp_all
  have c1: "fst (fst ?r1) = 201" and c2: "fst (fst ?r2) = 201"
    by (simp_all add: e1 e2)
  from total_price_is_price_times_count [OF p1 c1]
  obtain row1 price1 b1 where "find (\<lambda>r. s_id r = 1) (shows_tbl two_show_db) = Some row1"
      "s_price row1 = Some price1" "bookings (snd ?r1) = bookings two_show_db @ [b1]"
      "b_total_price b1 = price1 * 2"
    by (auto simp: req)
  then have t1: "b_total_price (last (bookings (snd ?r1))) = 300"
    by (auto simp: rows)
  from total_price_is_price_times_count [OF p2 c2]
  obtain row2 price2 b2 where "find (\<lambda>r. s_id r = 2) (shows_tbl two_show_db) = Some row2"
      "s_price row2 = Some price2" "bookings (snd ?r2) = bookings two_show_db @ [b2]"
      "b_total_price b2 = price2 * 1"
    by (auto simp: req)
  then have t2: "b_total_price (last (bookings (snd ?r2))) = 170"
    by (auto simp: rows)
  from e1 e2 t1 t2
  show "fst ?r1 = (201, BookingBody 1 1 [JStr ''A1'', JStr ''A2''] 300) \<and>
        b_total_price (last (bookings (snd ?r1))) = 300 \<and>
        fst ?r2 = (201, BookingBody 1 2 [JStr ''A1''] 170) \<and>
        b_total_price (last (bookings (snd ?r2))) = 170"
    by (intro conjI)
qed

section \<open>Empty and repeated seat lists\<close>

lemma check_seats_Reply_body:
  "check_seats found vs = Reply resp \<Longrightarrow>
   (\<exists>t. resp = (400, ErrorBody (''Seat '' @ t @ '' does not exist''))) \<or> fst resp = 409"
  by (induction found vs rule: check_seats.induct) (auto split: option.splits if_splits)

lemma requested_seats_nonempty:
  "requested_seats data \<noteq> [] \<Longrightarrow>
   \<exists>kvs. data = JObject kvs \<and> field kvs ''seats'' = Some (JList (requested_seats data))"
  by (auto simp: requested_seats_def split: json.splits option.splits)

lemma book_seats_nonempty_reply:
  assumes "requested_seats data \<noteq> []"
  shows "fst (book_seats int_of_str flt now data d) \<noteq>
           (400, ErrorBody ''Seats must be a non-empty list like [\"A1\",\"A2\"]'')"
    (is "fst ?r \<noteq> ?malformed")
proof -
  from requested_seats_nonempty [OF assms] obtain kvs where data: "data = JObject kvs"
    and seats: "field kvs ''seats'' = Some (JList (requested_seats data))" by blast
  let ?vs = "requested_seats data"
  show ?thesis
  proof (cases "\<exists>v1 sid name. field kvs ''show_id'' = Some v1 \<and>
      py_int int_of_str v1 = Some sid \<and> field kvs ''customer_name'' = Some (JStr name)")
    case False
    then show ?thesis
      using data seats assms
      by (auto simp: book_seats_def has_required_def required_def py_strip_Some
          split: option.splits bool.splits)
  next
    case True
    then obtain v1 sid name where f: "field kvs ''show_id'' = Some v1"
      "py_int int_of_str v1 = Some sid" "field kvs ''customer_name'' = Some (JStr name)"
      by blast
    note eq = book_seats_unfold [OF data f seats assms, of flt now d]
    let ?t = "book_try flt now sid (strip name) ?vs (get_db d)"
    show ?thesis
    proof (cases "execute flt 0 []")
      case (Some x)
      with eq show ?thesis by simp
    next
      case None
      from book_try_result [of flt now sid "strip name" ?vs d]
      consider (raised) x c where "?t = Inl (x, c)"
        | (no_show) "?t = Inr ((404, ErrorBody ''Show not found''), get_db d)"
        | (rejected) r where "?t = Inr (r, get_db d)"
            "check_seats (found_of (select_seats d sid ?vs)) ?vs = Reply r"
        | (booked) bid t c where "?t = Inr ((201, BookingBody bid sid ?vs t), c)"
        by blast
      then show ?thesis
      proof cases
        case raised
        then show ?thesis using eq None by (cases x) simp_all
      next
        case no_show
        then show ?thesis using eq None by simp
      next
        case rejected
        from check_seats_Reply_body [OF rejected(2)] rejected(1) show ?thesis
          using eq None by auto
      next
        case booked
        then show ?thesis using eq None by simp
      qed
    qed
  qed
qed

text \<open>
  The two replies that come before the connection is opened, for a body with the
  three fields: a conversion that raises, and a seat list that is empty or no
  list.
\<close>

lemma book_seats_conversion_fails:
  assumes "data = JObject kvs"
    and "field kvs ''show_id'' = Some v1" "field kvs ''customer_name'' = Some v2"
    and "field kvs ''seats'' = Some v3"
    and "py_int int_of_str v1 = None \<or> py_strip v2 = None"
  shows "book_seats int_of_str flt now data d = ((500, ServerError), d)"
proof -
  have "has_required data = Some True"
    using assms(1-4) by (simp add: has_required_def required_def)
  then show ?thesis
    using assms by (auto simp: book_seats_def split: option.splits)
qed

lemma book_seats_malformed_list:
  assumes "data = JObject kvs"
    and "field kvs ''show_id'' = Some v1" "field kvs ''customer_name'' = Some v2"
    and "field kvs ''seats'' = Some v3"
    and "py_int int_of_str v1 \<noteq> None" "py_strip v2 \<noteq> None"
    and "\<forall>vs. v3 = JList vs \<longrightarrow> vs = []"
  shows "book_seats int_of_str flt now data d =
           ((400, ErrorBody ''Seats must be a non-empty list like [\"A1\",\"A2\"]''), d)"
proof -
  have "has_required data = Some True"
    using assms(1-4) by (simp add: has_required_def required_def)
  then show ?thesis
    using assms by (cases v3) (auto simp: book_seats_def)
qed

text \<open>
  Claim C4, as amended. Take a body that is an object with the three fields. The
  conversions \<open>int(data['show_id'])\<close> and \<open>data['customer_name'].strip()\<close> come
  first: when one of them raises, the reply is 500, whatever the seat list. When
  both succeed and \<open>seats\<close> is the empty list (or no list at all), the request is
  rejected with status 400 and the message asking for a non-empty list. In both
  cases the database is unchanged. No non-empty list gets that message, whether
  or not it repeats a label: the route has no test for repeated labels. The
  counterexample shows the claim as stated failing: reserving A1 twice in one
  request, on the show where A1 is available, is accepted with status 201, books
  A1 and charges two seats.
\<close>

theorem empty_seat_list_rejected:
  assumes "data = JObject kvs"
    and "field kvs ''show_id'' = Some v1" "field kvs ''customer_name'' = Some v2"
    and "field kvs ''seats'' = Some v3"
  shows "(py_int int_of_str v1 \<noteq> None \<and> py_strip v2 \<noteq> None \<and> (\<forall>vs. v3 = JList vs \<longrightarrow> vs = []) \<longrightarrow>
            book_seats int_of_str flt now data d =
              ((400, ErrorBody ''Seats must be a non-empty list like [\"A1\",\"A2\"]''), d)) \<and>
         (py_int int_of_str v1 = None \<or> py_strip v2 = None \<longrightarrow>
            book_seats int_of_str flt now data d = ((500, ServerError), d)) \<and>
         (\<forall>vs. v3 = JList vs \<and> vs \<noteq> [] \<longrightarrow>
            fst (book_seats int_of_str flt now data d) \<noteq>
              (400, ErrorBody ''Seats must be a non-empty list like [\"A1\",\"A2\"]''))"
proof (intro conjI impI allI)
  {
    assume "py_int int_of_str v1 \<noteq> None \<and> py_strip v2 \<noteq> None \<and> (\<forall>vs. v3 = JList vs \<longrightarrow> vs = [])"
    then have "py_int int_of_str v1 \<noteq> None" "py_strip v2 \<noteq> None"
        "\<forall>vs. v3 = JList vs \<longrightarrow> vs = []" by simp_all
    with assms show "book_seats int_of_str flt now data d =
              ((400, ErrorBody ''Seats must be a non-empty list like [\"A1\",\"A2\"]''), d)"
      by (rule book_seats_malformed_list)
  }
  {
    assume "py_int int_of_str v1 = None \<or> py_strip v2 = None"
    with assms show "book_seats int_of_str flt now data d = ((500, ServerError), d)"
      by (rule book_seats_conversion_fails)
  }
  {
    fix vs assume "v3 = JList vs \<and> vs \<noteq> []"
    then have "requested_seats data \<noteq> []"
      using assms by (simp add: requested_seats_def)
    then show "fst (book_seats int_of_str flt now data d) \<noteq>
              (400, ErrorBody ''Seats must be a non-empty list like [\"A1\",\"A2\"]'')"
      by (rule book_seats_nonempty_reply)
  }
qed

theorem empty_seat_list_rejected_witness:
  "\<forall>int_of_str.
   book_seats int_of_str no_faults ''2024-01-01T09:00:00''
     (reserve_request (JInt 1) (JStr ''Ravi'') (JList [])) demo_db =
     ((400, ErrorBody ''Seats must be a non-empty list like [\"A1\",\"A2\"]''), demo_db) \<and>
   book_seats int_of_str no_faults ''2024-01-01T09:00:00''
     (reserve_request JNull (JStr ''Ravi'') (JList [])) demo_db =
     ((500, ServerError), demo_db) \<and>
   fst (book_seats int_of_str no_faults ''2024-01-01T09:00:00''
     (reserve_request (JInt 1) (JStr ''Ravi'') (JList [JStr ''A1'', JStr ''A1''])) demo_db) \<noteq>
     (400, ErrorBody ''Seats must be a non-empty list like [\"A1\",\"A2\"]'')"
proof
  fix int_of_str
  have f: "field [(''show_id'', a), (''customer_name'', b), (''seats'', c)] ''show_id'' = Some a"
    "field [(''show_id'', a), (''customer_name'', b), (''seats'', c)] ''customer_name'' = Some b"
    "field [(''show_id'', a), (''customer_name'', b), (''seats'', c)] ''seats'' = Some c"
    for a b c
    by (simp_all add: field_def)
  note t = empty_seat_list_rejected [where int_of_str = int_of_str and flt = no_faults
      and now = "''2024-01-01T09:00:00''" and d = demo_db]
  from t [OF reserve_request_def [of "JInt 1" "JStr ''Ravi''" "JList []"] f]
  have a: "book_seats int_of_str no_faults ''2024-01-01T09:00:00''
     (reserve_request (JInt 1) (JStr ''Ravi'') (JList [])) demo_db =
     ((400, ErrorBody ''Seats must be a non-empty list like [\"A1\",\"A2\"]''), demo_db)"
    by simp
  from t [OF reserve_request_def [of JNull "JStr ''Ravi''" "JList []"] f]
  have b: "book_seats int_of_str no_faults ''2024-01-01T09:00:00''
     (reserve_request JNull (JStr ''Ravi'') (JList [])) demo_db = ((500, ServerError), demo_db)"
    by simp
  from t [OF reserve_request_def [of "JInt 1" "JStr ''Ravi''" "JList [JStr ''A1'', JStr ''A1'']"] f]
  have c: "fst (book_seats int_of_str no_faults ''2024-01-01T09:00:00''
     (reserve_request (JInt 1) (JStr ''Ravi'') (JList [JStr ''A1'', JStr ''A1''])) demo_db) \<noteq>
     (400, ErrorBody ''Seats must be a non-empty list like [\"A1\",\"A2\"]'')"
    by simp
  from a b c
  show "book_seats int_of_str no_faults ''2024-01-01T09:00:00''
     (reserve_request (JInt 1) (JStr ''Ravi'') (JList [])) demo_db =
     ((400, ErrorBody ''Seats must be a non-empty list like [\"A1\",\"A2\"]''), demo_db) \<and>
   book_seats int_of_str no_faults ''2024-01-01T09:00:00''
     (reserve_request JNull (JStr ''Ravi'') (JList [])) demo_db =
     ((500, ServerError), demo_db) \<and>
   fst (book_seats int_of_str no_faults ''2024-01-01T09:00:00''
     (reserve_request (JInt 1) (JStr ''Ravi'') (JList [JStr ''A1'', JStr ''A1''])) demo_db) \<noteq>
     (400, ErrorBody ''Seats must be a non-empty list like [\"A1\",\"A2\"]'')"
    by (intro conjI)
qed

theorem duplicate_labels_counterexample:
  "\<not> distinct [JStr ''A1'', JStr ''A1''] \<and>
   label_status demo_db 1 ''A1'' = Some ''available'' \<and>
   (\<forall>int_of_str.
      book_seats int_of_str no_faults ''2024-01-01T09:00:00''
        (reserve_request (JInt 1) (JStr ''Ravi'') (JList [JStr ''A1'', JStr ''A1''])) demo_db =
      ((201, BookingBody 1 1 [JStr ''A1'', JStr ''A1''] 300),
       demo_db\<lparr>seats := [\<lparr>seat_id = 1, seat_show_id = 1, seat_label = ''A1'', seat_status = ''booked''\<rparr>,
                          \<lparr>seat_id = 2, seat_show_id = 1, seat_label = ''A2'', seat_status = ''available''\<rparr>,
                          \<lparr>seat_id = 3, seat_show_id = 1, seat_label = ''A3'', seat_status = ''booked''\<rparr>],
               bookings := [\<lparr>b_id = 1, b_show_id = 1, b_customer_name = ''Ravi'', b_seats = ''A1,A1'',
                             b_total_price = 300, b_created_at = ''2024-01-01T09:00:00''\<rparr>],
               bookings_seq := 1\<rparr>))"
proof (intro conjI allI)
  show "\<not> distinct [JStr ''A1'', JStr ''A1'']" by simp
  show "label_status demo_db 1 ''A1'' = Some ''available''" by code_simp
  fix int_of_str
  show "book_seats int_of_str no_faults ''2024-01-01T09:00:00''
        (reserve_request (JInt 1) (JStr ''Ravi'') (JList [JStr ''A1'', JStr ''A1''])) demo_db =
      ((201, BookingBody 1 1 [JStr ''A1'', JStr ''A1''] 300),
       demo_db\<lparr>seats := [\<lparr>seat_id = 1, seat_show_id = 1, seat_label = ''A1'', seat_status = ''booked''\<rparr>,
                          \<lparr>seat_id = 2, seat_show_id = 1, seat_label = ''A2'', seat_status = ''available''\<rparr>,
                          \<lparr>seat_id = 3, seat_show_id = 1, seat_label = ''A3'', seat_status = ''booked''\<rparr>],
               bookings := [\<lparr>b_id = 1, b_show_id = 1, b_customer_name = ''Ravi'', b_seats = ''A1,A1'',
                             b_total_price = 300, b_created_at = ''2024-01-01T09:00:00''\<rparr>],
               bookings_seq := 1\<rparr>)"
    by code_simp
qed

section \<open>The order of the checks\<close>





section \<open>The seat statuses of a show\<close>

text \<open>
  Claim C8, as amended. \<open>GET /shows/<id>/seats\<close> has no reply for a show without
  seats other than success: when the connection opens, the show id has 64 bits
  and the query does not fail in the store, the reply is 200 with the rows of the
  show ordered by label, and with the empty seat list when no seat is recorded
  for the show. The only failure of the route is the reply 500, exactly when
  opening the connection or the query raises. It changes nothing. The
  counterexample shows the claim as stated failing: show 2 has no seat in the demo
  database, and the reply is 200 with an empty list, not 404.
\<close>

theorem seats_for_show_never_not_found:
  "snd (seats_for_show flt show_id d) = d \<and>
   (fst (seats_for_show flt show_id d) = (500, ServerError) \<longleftrightarrow>
      flt 0 \<noteq> None \<or> \<not> in_int64 show_id \<or> flt 1 \<noteq> None) \<and>
   (flt 0 = None \<and> in_int64 show_id \<and> flt 1 = None \<longrightarrow>
      (\<exists>rows. fst (seats_for_show flt show_id d) = (200, SeatsBody show_id rows) \<and>
         sorted (map fst rows) \<and>
         set rows = (\<lambda>r. (seat_label r, seat_status r)) `
                      {r \<in> set (seats d). seat_show_id r = show_id})) \<and>
   (flt 0 = None \<and> in_int64 show_id \<and> flt 1 = None \<and>
    filter (\<lambda>r. seat_show_id r = show_id) (seats d) = [] \<longrightarrow>
      seats_for_show flt show_id d = ((200, SeatsBody show_id []), d))"
proof (cases "flt 0 = None \<and> in_int64 show_id \<and> flt 1 = None")
  case True
  then have "seats_for_show flt show_id d =
     ((200, SeatsBody show_id
         (sort_key fst (map (\<lambda>r. (seat_label r, seat_status r))
            (filter (\<lambda>r. seat_show_id r = show_id) (seats d))))), d)"
    by (simp add: seats_for_show_def execute_no_params execute_show_id get_db_def view_def
        close_connection_def)
  with True show ?thesis by auto
next
  case False
  then have "seats_for_show flt show_id d = ((500, ServerError), d)"
    by (auto simp: seats_for_show_def execute_no_params execute_show_id get_db_def
        close_connection_def split: option.splits)
  with False show ?thesis by auto
qed

theorem seats_for_show_never_not_found_witness:
  "filter (\<lambda>r. seat_show_id r = 2) (seats demo_db) = [] \<and>
   seats_for_show no_faults 2 demo_db = ((200, SeatsBody 2 []), demo_db) \<and>
   fst (seats_for_show no_faults 9223372036854775808 demo_db) = (500, ServerError)"
proof -
  have e: "filter (\<lambda>r. seat_show_id r = 2) (seats demo_db) = []"
    by (simp add: demo_db_def)
  have r: "in_int64 2" "\<not> in_int64 9223372036854775808" "no_faults 0 = None" "no_faults 1 = None"
    by (simp_all add: in_int64_def no_faults_def)
  from seats_for_show_never_not_found [of no_faults 2 demo_db] e r
  have a: "seats_for_show no_faults 2 demo_db = ((200, SeatsBody 2 []), demo_db)" by simp
  from seats_for_show_never_not_found [of no_faults 9223372036854775808 demo_db] r
  have b: "fst (seats_for_show no_faults 9223372036854775808 demo_db) = (500, ServerError)"
    by simp
  from e a b show ?thesis by (intro conjI)
qed

theorem seats_for_show_no_seats_counterexample:
  "filter (\<lambda>r. seat_show_id r = 2) (seats demo_db) = [] \<and>
   fst (fst (seats_for_show no_faults 2 demo_db)) \<noteq> 404 \<and>
   fst (seats_for_show no_faults 2 demo_db) = (200, SeatsBody 2 [])"
  by code_simp

section \<open>What a reservation leaves alone\<close>

lemma list_all2_map_same:
  "(\<forall>x \<in> set xs. R x (g x)) \<Longrightarrow> list_all2 R xs (map g xs)"
  by (induction xs) simp_all

text \<open>
  Claim C10. Whatever the reply, \<open>POST /book\<close> leaves the cinemas, the movies
  and the shows as they were, and row by row the seats table keeps every row of
  another show and every row whose label is not in the request; ids, shows and
  labels of all rows are kept.
\<close>

theorem reserve_frame:
  assumes "book_seats int_of_str flt now data d = (resp, d')"
  shows "cinemas d' = cinemas d \<and> movies d' = movies d \<and> shows_tbl d' = shows_tbl d \<and>
         list_all2 (\<lambda>r r'.
             (requested_show int_of_str data \<noteq> Some (seat_show_id r) \<longrightarrow> r' = r) \<and>
             (JStr (seat_label r) \<notin> set (requested_seats data) \<longrightarrow> r' = r) \<and>
             seat_id r' = seat_id r \<and> seat_show_id r' = seat_show_id r \<and>
             seat_label r' = seat_label r)
           (seats d) (seats d')"
  using book_seats_result [OF assms]
proof (elim disjE exE conjE)
  assume "d' = d"
  then show ?thesis by (simp add: list_all2_same)
next
  fix kvs v1 sid name xs p
  assume data: "data = JObject kvs" "field kvs ''show_id'' = Some v1"
      "py_int int_of_str v1 = Some sid" "field kvs ''seats'' = Some (JList (map JStr xs))"
    and d': "d' = after_booking sid (strip name) xs p now d"
  have rs: "requested_show int_of_str data = Some sid" "requested_seats data = map JStr xs"
    using data by (simp_all add: requested_show_def requested_seats_def)
  show ?thesis
    unfolding d' after_booking_fields rs
    by (intro conjI refl list_all2_map_same) auto
qed

theorem reserve_frame_witness:
  "\<forall>int_of_str.
   fst (book_seats int_of_str no_faults ''2024-01-01T09:00:00''
          (reserve_request (JInt 1) (JStr ''Asha'') (JList [JStr ''A1''])) two_show_db) =
     (201, BookingBody 1 1 [JStr ''A1''] 150) \<and>
   seats (snd (book_seats int_of_str no_faults ''2024-01-01T09:00:00''
       (reserve_request (JInt 1) (JStr ''Asha'') (JList [JStr ''A1''])) two_show_db)) ! 3 =
     \<lparr>seat_id = 4, seat_show_id = 2, seat_label = ''A1'', seat_status = ''available''\<rparr> \<and>
   seats (snd (book_seats int_of_str no_faults ''2024-01-01T09:00:00''
       (reserve_request (JInt 1) (JStr ''Asha'') (JList [JStr ''A1''])) two_show_db)) ! 1 =
     \<lparr>seat_id = 2, seat_show_id = 1, seat_label = ''A2'', seat_status = ''available''\<rparr> \<and>
   shows_tbl (snd (book_seats int_of_str no_faults ''2024-01-01T09:00:00''
       (reserve_request (JInt 1) (JStr ''Asha'') (JList [JStr ''A1''])) two_show_db)) =
     shows_tbl two_show_db"
proof
  fix int_of_str
  let ?data = "reserve_request (JInt 1) (JStr ''Asha'') (JList [JStr ''A1''])"
  let ?r = "book_seats int_of_str no_faults ''2024-01-01T09:00:00'' ?data two_show_db"
  let ?R = "\<lambda>r r'.
             (requested_show int_of_str ?data \<noteq> Some (seat_show_id r) \<longrightarrow> r' = r) \<and>
             (JStr (seat_label r) \<notin> set (requested_seats ?data) \<longrightarrow> r' = r) \<and>
             seat_id r' = seat_id r \<and> seat_show_id r' = seat_show_id r \<and>
             seat_label r' = seat_label r"
  have r: "fst ?r = (201, BookingBody 1 1 [JStr ''A1''] 150)"
    by code_simp
  have req: "requested_show int_of_str ?data = Some 1" "requested_seats ?data = [JStr ''A1'']"
    by (simp_all add: requested_show_def requested_seats_def reserve_request_def field_def)
  have "?r = (fst ?r, snd ?r)" by simp
  from reserve_frame [OF this]
  have sh: "shows_tbl (snd ?r) = shows_tbl two_show_db"
    and all: "list_all2 ?R (seats two_show_db) (seats (snd ?r))"
    by simp_all
  have sl: "seats two_show_db =
      [\<lparr>seat_id = 1, seat_show_id = 1, seat_label = ''A1'', seat_status = ''available''\<rparr>,
       \<lparr>seat_id = 2, seat_show_id = 1, seat_label = ''A2'', seat_status = ''available''\<rparr>,
       \<lparr>seat_id = 3, seat_show_id = 1, seat_label = ''A3'', seat_status = ''booked''\<rparr>,
       \<lparr>seat_id = 4, seat_show_id = 2, seat_label = ''A1'', seat_status = ''available''\<rparr>]"
    by (simp add: two_show_db_def demo_db_def)
  have "?R (seats two_show_db ! 3) (seats (snd ?r) ! 3)"
    by (rule list_all2_nthD [OF all]) (simp add: sl)
  then have a: "seats (snd ?r) ! 3 =
      \<lparr>seat_id = 4, seat_show_id = 2, seat_label = ''A1'', seat_status = ''available''\<rparr>"
    by (simp add: sl req)
  have "?R (seats two_show_db ! 1) (seats (snd ?r) ! 1)"
    by (rule list_all2_nthD [OF all]) (simp add: sl)
  then have b: "seats (snd ?r) ! 1 =
      \<lparr>seat_id = 2, seat_show_id = 1, seat_label = ''A2'', seat_status = ''available''\<rparr>"
    by (simp add: sl req)
  from r a b sh
  show "fst ?r = (201, BookingBody 1 1 [JStr ''A1''] 150) \<and>
        seats (snd ?r) ! 3 =
          \<lparr>seat_id = 4, seat_show_id = 2, seat_label = ''A1'', seat_status = ''available''\<rparr> \<and>
        seats (snd ?r) ! 1 =
          \<lparr>seat_id = 2, seat_show_id = 1, seat_label = ''A2'', seat_status = ''available''\<rparr> \<and>
        shows_tbl (snd ?r) = shows_tbl two_show_db"
    by (intro conjI)
qed

section \<open>Booked is terminal\<close>

lemma seat_moves_refl: "seat_moves r r"
  by (simp add: seat_moves_def)

lemma seat_moves_trans: "seat_moves a b \<Longrightarrow> seat_moves b c \<Longrightarrow> seat_moves a c"
  by (auto simp: seat_moves_def)

lemma seat_moves_booking:
  "seat_status r = ''available'' \<or> seat_status r = ''booked'' \<Longrightarrow>
   seat_moves r (if P r then r\<lparr>seat_status := ''booked''\<rparr> else r)"
  by (auto simp: seat_moves_def)

lemma valid_statuses_map:
  "list_all (\<lambda>r. seat_status r = ''available'' \<or> seat_status r = ''booked'') rs \<Longrightarrow>
   list_all (\<lambda>r. seat_status r = ''available'' \<or> seat_status r = ''booked'')
     (map (\<lambda>r. if P r then r\<lparr>seat_status := ''booked''\<rparr> else r) rs)"
  by (induction rs) simp_all

lemma book_seats_step:
  assumes "valid_statuses d"
  shows "valid_statuses (snd (book_seats int_of_str flt now data d)) \<and>
         list_all2 seat_moves (seats d) (seats (snd (book_seats int_of_str flt now data d)))"
proof -
  let ?r = "book_seats int_of_str flt now data d"
  have "?r = (fst ?r, snd ?r)" by simp
  from book_seats_result [OF this] show ?thesis
  proof (elim disjE exE conjE)
    assume "snd ?r = d"
    with assms show ?thesis by (simp add: list_all2_same seat_moves_refl)
  next
    fix sid name xs price
    assume d': "snd ?r = after_booking sid (strip name) xs price now d"
    have v: "\<forall>r \<in> set (seats d). seat_status r = ''available'' \<or> seat_status r = ''booked''"
      using assms by (simp add: valid_statuses_def list_all_iff)
    have "valid_statuses (after_booking sid (strip name) xs price now d)"
      using assms unfolding valid_statuses_def after_booking_fields
      by (rule valid_statuses_map)
    moreover have "list_all2 seat_moves (seats d) (seats (after_booking sid (strip name) xs price now d))"
      unfolding after_booking_fields
      using v by (intro list_all2_map_same ballI seat_moves_booking) simp
    ultimately show ?thesis by (simp only: d')
  qed
qed

lemma read_routes_change_nothing:
  "snd (seats_for_show flt show_id d) = d" "snd (list_bookings flt d) = d"
  by (simp_all add: seats_for_show_def list_bookings_def get_db_def close_connection_def Let_def
      split: option.splits)

lemma perform_step:
  assumes "valid_statuses d"
  shows "valid_statuses (snd (perform op d)) \<and>
         list_all2 seat_moves (seats d) (seats (snd (perform op d)))"
proof (cases op)
  case (Reserve int_of_str flt now data)
  with book_seats_step [OF assms] show ?thesis by simp
next
  case (SeatStatuses flt sid)
  with assms show ?thesis
    by (simp add: read_routes_change_nothing list_all2_same seat_moves_refl)
next
  case (ListBookings flt)
  with assms show ?thesis
    by (simp add: read_routes_change_nothing list_all2_same seat_moves_refl)
qed

text \<open>
  Claim C7. Start from a database in which every seat status is \<open>available\<close> or
  \<open>booked\<close> and run any sequence of the core's operations (reservations, with
  any body and any faults of the store, and the two read routes). Then every
  status is still one of the two, each seat row is either as it was or has gone
  from \<open>available\<close> to \<open>booked\<close>, and a row that was \<open>booked\<close> has not
  changed.
\<close>

theorem booked_is_terminal:
  assumes "valid_statuses d"
  shows "valid_statuses (run ops d) \<and>
         list_all2 seat_moves (seats d) (seats (run ops d)) \<and>
         list_all2 (\<lambda>r r'. seat_status r = ''booked'' \<longrightarrow> r' = r) (seats d) (seats (run ops d))"
proof -
  have "valid_statuses (run ops d) \<and> list_all2 seat_moves (seats d) (seats (run ops d))"
    using assms
  proof (induction ops arbitrary: d)
    case Nil
    then show ?case by (simp add: list_all2_same seat_moves_refl)
  next
    case (Cons op ops)
    let ?d = "snd (perform op d)"
    from perform_step [OF Cons.prems, of op]
    have v: "valid_statuses ?d" and m: "list_all2 seat_moves (seats d) (seats ?d)"
      by simp_all
    from Cons.IH [OF v]
    have v': "valid_statuses (run ops ?d)"
      and m': "list_all2 seat_moves (seats ?d) (seats (run ops ?d))" by simp_all
    have "list_all2 seat_moves (seats d) (seats (run ops ?d))"
      using m m' by (rule list_all2_trans [rotated]) (rule seat_moves_trans)
    with v' show ?case by simp
  qed
  moreover have "list_all2 (\<lambda>r r'. seat_status r = ''booked'' \<longrightarrow> r' = r) xs ys"
    if "list_all2 seat_moves xs ys" for xs ys
    using that by (rule list_all2_mono) (auto simp: seat_moves_def)
  ultimately show ?thesis by simp
qed

theorem booked_is_terminal_witness:
  "\<forall>int_of_str.
   valid_statuses demo_db \<and>
   valid_statuses
     (run [Reserve int_of_str no_faults ''2024-01-01T09:00:00''
             (reserve_request (JInt 1) (JStr ''Asha'') (JList [JStr ''A1''])),
           SeatStatuses no_faults 1, ListBookings no_faults,
           Reserve int_of_str no_faults ''2024-01-01T09:05:00''
             (reserve_request (JInt 1) (JStr ''Ravi'') (JList [JStr ''A2'', JStr ''A1'']))]
        demo_db) \<and>
   list_all2 seat_moves (seats demo_db)
     (seats (run [Reserve int_of_str no_faults ''2024-01-01T09:00:00''
                    (reserve_request (JInt 1) (JStr ''Asha'') (JList [JStr ''A1''])),
                  SeatStatuses no_faults 1, ListBookings no_faults,
                  Reserve int_of_str no_faults ''2024-01-01T09:05:00''
                    (reserve_request (JInt 1) (JStr ''Ravi'') (JList [JStr ''A2'', JStr ''A1'']))]
               demo_db)) \<and>
   map seat_status
     (seats (run [Reserve int_of_str no_faults ''2024-01-01T09:00:00''
                    (reserve_request (JInt 1) (JStr ''Asha'') (JList [JStr ''A1''])),
                  SeatStatuses no_faults 1, ListBookings no_faults,
                  Reserve int_of_str no_faults ''2024-01-01T09:05:00''
                    (reserve_request (JInt 1) (JStr ''Ravi'') (JList [JStr ''A2'', JStr ''A1'']))]
               demo_db)) = [''booked'', ''available'', ''booked'']"
proof
  fix int_of_str
  let ?ops = "[Reserve int_of_str no_faults ''2024-01-01T09:00:00''
                 (reserve_request (JInt 1) (JStr ''Asha'') (JList [JStr ''A1''])),
               SeatStatuses no_faults 1, ListBookings no_faults,
               Reserve int_of_str no_faults ''2024-01-01T09:05:00''
                 (reserve_request (JInt 1) (JStr ''Ravi'') (JList [JStr ''A2'', JStr ''A1'']))]"
  have v: "valid_statuses demo_db"
    by (simp add: valid_statuses_def demo_db_def)
  have e: "map seat_status (seats (run ?ops demo_db)) = [''booked'', ''available'', ''booked'']"
    by code_simp
  from booked_is_terminal [OF v, of ?ops] v e
  show "valid_statuses demo_db \<and> valid_statuses (run ?ops demo_db) \<and>
        list_all2 seat_moves (seats demo_db) (seats (run ?ops demo_db)) \<and>
        map seat_status (seats (run ?ops demo_db)) = [''booked'', ''available'', ''booked'']"
    by simp
qed

section \<open>Booking ids and the list of bookings\<close>

lemma sorted_wrt_order_by_desc:
  "sorted_wrt (\<lambda>x y. f y \<le> f x) (order_by_desc f xs)"
proof -
  have "sorted (map f (sort_key f (rev xs)))" by (rule sorted_sort_key)
  then have "sorted_wrt (\<lambda>x y. f x \<le> f y) (sort_key f (rev xs))"
    by (simp add: sorted_map)
  then show ?thesis by (simp add: order_by_desc_def sorted_wrt_rev)
qed

lemma order_by_desc_same_rows:
  "set (order_by_desc f xs) = set xs" "length (order_by_desc f xs) = length xs"
  by (simp_all add: order_by_desc_def)

lemma order_by_desc_ties:
  "filter (\<lambda>y. f y = k) (order_by_desc f xs) = filter (\<lambda>y. f y = k) xs"
proof -
  have "filter (\<lambda>y. f y = k) (rev (sort_key f (rev xs))) =
        rev (filter (\<lambda>y. f y = k) (sort_key f (rev xs)))"
    by (simp add: rev_filter)
  also have "\<dots> = rev (filter (\<lambda>y. f y = k) (rev xs))"
    by (simp only: sort_key_stable)
  also have "\<dots> = filter (\<lambda>y. f y = k) xs"
    by (simp add: rev_filter)
  finally show ?thesis by (simp add: order_by_desc_def)
qed

lemma bookings_joined_bookings:
  "fst ` set (bookings_joined d) =
     {b \<in> set (bookings d).
        \<exists>s \<in> set (shows_tbl d). s_id s = b_show_id b \<and>
          (\<exists>m \<in> set (movies d). m_id m = s_movie_id s) \<and>
          (\<exists>c \<in> set (cinemas d). c_id c = s_cinema_id s)}"
  by (force simp: bookings_joined_def)

text \<open>
  Claim C9. The id a successful reservation returns is larger than the id of
  every booking already stored and than the recorded sequence value, it is the id
  of the one row appended, and it becomes the new sequence value, so ids grow
  strictly from one booking to the next. \<open>GET /bookings\<close> changes nothing; when
  opening the connection and the query do not fail it replies 200 with the
  joined booking rows in descending order of \<open>created_at\<close> (the ISO timestamps
  compared as text), one row per row of the join, and the bookings listed are
  those whose show, movie and cinema exist; when one of the two steps raises, the
  reply is 500.
\<close>

theorem booking_ids_and_listing:
  "(\<forall>bid sid vs t d'.
      book_seats int_of_str flt now data d = ((201, BookingBody bid sid vs t), d') \<longrightarrow>
        (\<forall>b \<in> set (bookings d). b_id b < bid) \<and> bookings_seq d < bid \<and>
        (\<exists>b. bookings d' = bookings d @ [b] \<and> b_id b = bid) \<and> bookings_seq d' = bid) \<and>
   snd (list_bookings flt' d) = d \<and>
   (flt' 0 \<noteq> None \<or> flt' 1 \<noteq> None \<longrightarrow> list_bookings flt' d = ((500, ServerError), d)) \<and>
   (flt' 0 = None \<and> flt' 1 = None \<longrightarrow>
     (\<exists>rows. list_bookings flt' d = ((200, BookingsBody rows), d) \<and>
        sorted_wrt (\<lambda>x y. b_created_at (fst y) \<le> b_created_at (fst x)) rows \<and>
        length rows = length (bookings_joined d) \<and>
        fst ` set rows =
          {b \<in> set (bookings d).
             \<exists>s \<in> set (shows_tbl d). s_id s = b_show_id b \<and>
               (\<exists>m \<in> set (movies d). m_id m = s_movie_id s) \<and>
               (\<exists>c \<in> set (cinemas d). c_id c = s_cinema_id s)}))"
proof (intro conjI allI impI)
  fix bid sid vs t d'
  assume r: "book_seats int_of_str flt now data d = ((201, BookingBody bid sid vs t), d')"
  from book_seats_result [OF r]
  have bid: "bid = next_rowid (map b_id (bookings d)) (bookings_seq d)"
    and d': "\<exists>sid name xs price. d' = after_booking sid (strip name) xs price now d"
    by auto
  from next_rowid_fresh [where ids = "map b_id (bookings d)" and seq = "bookings_seq d"]
  show "\<forall>b \<in> set (bookings d). b_id b < bid" "bookings_seq d < bid"
    by (simp_all add: bid)
  from d' show "\<exists>b. bookings d' = bookings d @ [b] \<and> b_id b = bid" "bookings_seq d' = bid"
    by (auto simp: after_booking_fields bid)
next
  show "snd (list_bookings flt' d) = d" by (rule read_routes_change_nothing)
next
  assume "flt' 0 \<noteq> None \<or> flt' 1 \<noteq> None"
  then show "list_bookings flt' d = ((500, ServerError), d)"
    by (auto simp: list_bookings_def execute_no_params get_db_def close_connection_def Let_def
        split: option.splits)
next
  assume ok: "flt' 0 = None \<and> flt' 1 = None"
  let ?rows = "order_by_desc (\<lambda>row. b_created_at (fst row)) (bookings_joined d)"
  have "list_bookings flt' d = ((200, BookingsBody ?rows), d)"
    using ok by (simp add: list_bookings_def execute_no_params get_db_def view_def
        close_connection_def)
  moreover have "sorted_wrt (\<lambda>x y. b_created_at (fst y) \<le> b_created_at (fst x)) ?rows"
    by (rule sorted_wrt_order_by_desc)
  moreover have "length ?rows = length (bookings_joined d)"
    by (rule order_by_desc_same_rows)
  moreover have "fst ` set ?rows =
        {b \<in> set (bookings d).
           \<exists>s \<in> set (shows_tbl d). s_id s = b_show_id b \<and>
             (\<exists>m \<in> set (movies d). m_id m = s_movie_id s) \<and>
             (\<exists>c \<in> set (cinemas d). c_id c = s_cinema_id s)}"
    by (simp add: order_by_desc_same_rows bookings_joined_bookings)
  ultimately show "\<exists>rows. list_bookings flt' d = ((200, BookingsBody rows), d) \<and>
      sorted_wrt (\<lambda>x y. b_created_at (fst y) \<le> b_created_at (fst x)) rows \<and>
      length rows = length (bookings_joined d) \<and>
      fst ` set rows =
        {b \<in> set (bookings d).
           \<exists>s \<in> set (shows_tbl d). s_id s = b_show_id b \<and>
             (\<exists>m \<in> set (movies d). m_id m = s_movie_id s) \<and>
             (\<exists>c \<in> set (cinemas d). c_id c = s_cinema_id s)}"
    by (intro exI [of _ ?rows] conjI)
qed

theorem booking_ids_and_listing_witness:
  "\<forall>int_of_str.
   fst (book_seats int_of_str no_faults ''2024-01-01T09:05:00''
          (reserve_request (JInt 1) (JStr ''Ravi'') (JList [JStr ''A2'']))
          (snd (book_seats int_of_str no_faults ''2024-01-01T09:00:00''
                  (reserve_request (JInt 1) (JStr ''Asha'') (JList [JStr ''A1''])) demo_db))) =
     (201, BookingBody 2 1 [JStr ''A2''] 150) \<and>
   map b_id (bookings (snd (book_seats int_of_str no_faults ''2024-01-01T09:00:00''
                              (reserve_request (JInt 1) (JStr ''Asha'') (JList [JStr ''A1'']))
                              demo_db))) = [1] \<and>
   list_all (\<lambda>b. b_id b < 2)
     (bookings (snd (book_seats int_of_str no_faults ''2024-01-01T09:00:00''
                       (reserve_request (JInt 1) (JStr ''Asha'') (JList [JStr ''A1''])) demo_db))) \<and>
   (\<exists>rows.
      fst (list_bookings no_faults
             (snd (book_seats int_of_str no_faults ''2024-01-01T09:05:00''
                (reserve_request (JInt 1) (JStr ''Ravi'') (JList [JStr ''A2'']))
                (snd (book_seats int_of_str no_faults ''2024-01-01T09:00:00''
                        (reserve_request (JInt 1) (JStr ''Asha'') (JList [JStr ''A1'']))
                        demo_db))))) =
        (200, BookingsBody rows) \<and>
      sorted_wrt (\<lambda>x y. b_created_at (fst y) \<le> b_created_at (fst x)) rows \<and>
      map (\<lambda>row. b_id (fst row)) rows = [2, 1])"
proof
  fix int_of_str
  let ?D1 = "snd (book_seats int_of_str no_faults ''2024-01-01T09:00:00''
                    (reserve_request (JInt 1) (JStr ''Asha'') (JList [JStr ''A1''])) demo_db)"
  let ?r2 = "book_seats int_of_str no_faults ''2024-01-01T09:05:00''
               (reserve_request (JInt 1) (JStr ''Ravi'') (JList [JStr ''A2''])) ?D1"
  let ?D2 = "snd ?r2"
  have r2: "fst ?r2 = (201, BookingBody 2 1 [JStr ''A2''] 150)"
    by code_simp
  have ids: "map b_id (bookings ?D1) = [1]"
    by code_simp
  have listed: "(case snd (fst (list_bookings no_faults ?D2)) of
                   BookingsBody rows \<Rightarrow> map (\<lambda>row. b_id (fst row)) rows
                 | _ \<Rightarrow> []) = [2, 1]"
    by code_simp
  have nf: "no_faults 0 = None \<and> no_faults 1 = None" by (simp add: no_faults_def)
  have eq: "?r2 = ((201, BookingBody 2 1 [JStr ''A2''] 150), ?D2)"
    by (simp only: r2 [symmetric] prod.collapse)
  note fresh = booking_ids_and_listing
         [where int_of_str = int_of_str and flt = no_faults and now = "''2024-01-01T09:05:00''"
            and data = "reserve_request (JInt 1) (JStr ''Ravi'') (JList [JStr ''A2''])"
            and d = ?D1,
          THEN conjunct1, rule_format, OF eq, THEN conjunct1]
  have small: "list_all (\<lambda>b. b_id b < 2) (bookings ?D1)"
    using fresh by (simp only: list_all_iff)
  note listing = booking_ids_and_listing
         [where flt' = no_faults and d = ?D2,
          THEN conjunct2, THEN conjunct2, THEN conjunct2, rule_format, OF nf]
  have "\<exists>rows. fst (list_bookings no_faults ?D2) = (200, BookingsBody rows) \<and>
      sorted_wrt (\<lambda>x y. b_created_at (fst y) \<le> b_created_at (fst x)) rows \<and>
      map (\<lambda>row. b_id (fst row)) rows = [2, 1]"
  proof -
    from listing obtain rows
      where rows: "list_bookings no_faults ?D2 = ((200, BookingsBody rows), ?D2)"
      and srt: "sorted_wrt (\<lambda>x y. b_created_at (fst y) \<le> b_created_at (fst x)) rows"
      by (elim exE conjE)
    from listed have "map (\<lambda>row. b_id (fst row)) rows = [2, 1]"
      by (simp only: rows fst_conv snd_conv body.case)
    with rows srt show ?thesis
      by (intro exI [of _ rows] conjI) (simp_all only: fst_conv)
  qed
  with r2 ids small
  show "fst ?r2 = (201, BookingBody 2 1 [JStr ''A2''] 150) \<and>
        map b_id (bookings ?D1) = [1] \<and>
        list_all (\<lambda>b. b_id b < 2) (bookings ?D1) \<and>
        (\<exists>rows. fst (list_bookings no_faults ?D2) = (200, BookingsBody rows) \<and>
           sorted_wrt (\<lambda>x y. b_created_at (fst y) \<le> b_created_at (fst x)) rows \<and>
           map (\<lambda>row. b_id (fst row)) rows = [2, 1])"
    by (intro conjI)
qed

section \<open>Reservations one after the other\<close>

text \<open>
  Two requests served one after the other, for the same show and with a label in
  common: when the first is booked, the second is not, and it changes nothing.
  This is the sequential case only; the interleaving of the statements of two
  connections is decided by SQLite's locking and is not part of this model.
\<close>

lemma serial_reserve_no_double_booking:
  assumes first: "book_seats int_of_str flt1 now1 data1 d = (r1, d1)" "fst r1 = 201"
    and second: "book_seats int_of_str flt2 now2 data2 d1 = (r2, d2)"
    and same_show: "requested_show int_of_str data2 = requested_show int_of_str data1"
    and shared: "JStr s \<in> set (requested_seats data1)" "JStr s \<in> set (requested_seats data2)"
  shows "fst r2 \<noteq> 201 \<and> d2 = d1"
proof -
  from book_seats_result [OF first(1)] first(2)
  obtain kvs v1 sid name xs p where data1: "data1 = JObject kvs"
      "field kvs ''show_id'' = Some v1" "py_int int_of_str v1 = Some sid"
      "field kvs ''seats'' = Some (JList (map JStr xs))"
    and chk: "check_seats (found_of (select_seats d sid (map JStr xs))) (map JStr xs) = Pass"
    and d1: "d1 = after_booking sid (strip name) xs p now1 d"
    by auto
  have rs1: "requested_show int_of_str data1 = Some sid" "requested_seats data1 = map JStr xs"
    using data1 by (simp_all add: requested_show_def requested_seats_def)
  from shared(1) have sx: "s \<in> set xs" by (auto simp: rs1)
  with chk have "label_status d sid s \<noteq> None"
    by (simp add: check_seats_label_status)
  with sx have booked: "label_status d1 sid s = Some ''booked''"
    unfolding d1 by (rule label_status_after_booking)
  have "fst r2 \<noteq> 201"
  proof
    assume "fst r2 = 201"
    with book_seats_result [OF second]
    obtain kvs' v1' sid' ys where data2: "data2 = JObject kvs'"
        "field kvs' ''show_id'' = Some v1'" "py_int int_of_str v1' = Some sid'"
        "field kvs' ''seats'' = Some (JList (map JStr ys))"
      and chk2: "check_seats (found_of (select_seats d1 sid' (map JStr ys))) (map JStr ys) = Pass"
      by auto
    have rs2: "requested_show int_of_str data2 = Some sid'" "requested_seats data2 = map JStr ys"
      using data2 by (simp_all add: requested_show_def requested_seats_def)
    from same_show rs1 rs2 have "sid' = sid" by simp
    moreover from shared(2) have "s \<in> set ys" by (auto simp: rs2)
    ultimately have "label_status d1 sid s = Some ''available''"
      using chk2 by (simp add: check_seats_label_status)
    with booked show False by simp
  qed
  moreover from book_seats_result [OF second] this have "d2 = d1" by auto
  ultimately show ?thesis by simp
qed

section \<open>\<open>strip\<close> removes the white space at both ends\<close>

text \<open>
  The rounds \<open>lstrip\<close> and \<open>rstrip\<close> are given suffice: no white space is left
  at the start of \<open>lstrip s\<close> nor at the end of \<open>rstrip s\<close>.
\<close>

lemma drop_leading_shorter: "length (drop_leading ws n s) \<le> length s"
proof (induction n arbitrary: s)
  case 0
  show ?case by simp
next
  case (Suc n)
  show ?case
  proof (cases "find (\<lambda>w. take (length w) s = w) ws")
    case None
    then show ?thesis by simp
  next
    case (Some w)
    have "length (drop_leading ws n (drop (length w) s)) \<le> length (drop (length w) s)"
      by (rule Suc.IH)
    with Some show ?thesis by simp
  qed
qed

lemma drop_leading_done:
  assumes "\<forall>w \<in> set ws. w \<noteq> []" and "length s \<le> n"
  shows "find (\<lambda>w. take (length w) (drop_leading ws n s) = w) ws = None"
  using assms(2)
proof (induction n arbitrary: s)
  case 0
  then have "s = []" by simp
  with assms(1) show ?case by (auto simp: find_None_iff)
next
  case (Suc n)
  show ?case
  proof (cases "find (\<lambda>w. take (length w) s = w) ws")
    case None
    then show ?thesis by simp
  next
    case (Some w)
    then have w: "w \<in> set ws" "take (length w) s = w"
      by (auto simp: find_Some_iff)
    with assms(1) have "w \<noteq> []" by blast
    moreover have "length w \<le> length s"
    proof -
      have "length (take (length w) s) = length w" by (simp only: w(2))
      then show ?thesis by simp
    qed
    ultimately have "length (drop (length w) s) \<le> n"
      using Suc.prems by (cases w) auto
    from Suc.IH [OF this] Some show ?thesis by simp
  qed
qed

lemma whitespace_nonempty: "\<forall>w \<in> set whitespace. w \<noteq> []" "\<forall>w \<in> set (map rev whitespace). w \<noteq> []"
  by (simp_all add: whitespace_def)

lemma lstrip_done: "find (\<lambda>w. take (length w) (lstrip s) = w) whitespace = None"
  unfolding lstrip_def by (rule drop_leading_done [OF whitespace_nonempty(1)]) simp

lemma rstrip_done: "find (\<lambda>w. take (length w) (rev (rstrip s)) = w) (map rev whitespace) = None"
  unfolding rstrip_def rev_rev_ident
  by (rule drop_leading_done [OF whitespace_nonempty(2)]) simp

end
